theory Spec2Isabelle
  imports Main
begin

section \<open>TTL reconciler for finished TaskRuns\<close>

subsection \<open>Time\<close>

text \<open>
  A \<open>time.Time\<close> is modelled by the instant it denotes, as a count of nanoseconds since
  Go's zero instant (January 1, year 1, 00:00:00 UTC), so that \<open>IsZero\<close> is a test
  against 0 and \<open>UTC\<close>, which changes the location only, is the identity on instants.
  A \<open>time.Duration\<close> is a signed 64-bit count of nanoseconds. \<open>Time.Sub\<close> returns a
  Duration and saturates at the smallest and largest Duration when the difference does not
  fit; the saturation is written out. \<open>Time.Add\<close> stays inside the range of
  \<open>time.Time\<close> (64-bit seconds) for the timestamps of API objects, whose years have four
  digits, and is exact.
\<close>

type_synonym time = int
type_synonym Duration = int

definition minDuration :: Duration where
  "minDuration = - (2 ^ 63)"

definition maxDuration :: Duration where
  "maxDuration = 2 ^ 63 - 1"

definition Time_IsZero :: "time \<Rightarrow> bool" where
  "Time_IsZero t = (t = 0)"

definition Time_UTC :: "time \<Rightarrow> time" where
  "Time_UTC t = t"

definition Time_Add :: "time \<Rightarrow> Duration \<Rightarrow> time" where
  "Time_Add t d = t + d"

definition Time_Sub :: "time \<Rightarrow> time \<Rightarrow> Duration" where
  "Time_Sub t u =
     (if t - u < minDuration then minDuration
      else if maxDuration < t - u then maxDuration
      else t - u)"

subsection \<open>TaskRun objects\<close>

text \<open>
  A condition record has a type, a status with the three values true, false and unknown,
  and a last-transition time, which is the zero time when unset.
\<close>

datatype ConditionStatus = ConditionTrue | ConditionFalse | ConditionUnknown

definition ConditionSucceeded :: string where
  "ConditionSucceeded = ''Succeeded''"

record Condition =
  Type :: string
  Status :: ConditionStatus
  LastTransitionTime :: time

text \<open>
  The fields of a TaskRun that the reconciler reads. \<open>ExpirationSecondsTTL\<close> is the
  pointer field \<open>tr.Spec.ExpirationSecondsTTL\<close> (\<open>None\<close> for nil) and \<open>Conditions\<close>
  is \<open>tr.Status.Conditions\<close>. \<open>OwnerReference\<close> is the optional reference to a parent
  aggregate run of the spec's data model, holding the parent's name.
\<close>

record TaskRun =
  Namespace :: string
  Name :: string
  UID :: string
  DeletionTimestamp :: "time option"
  OwnerReference :: "string option"
  ExpirationSecondsTTL :: "Duration option"
  Conditions :: "Condition list"

text \<open>
  Modelled from the spec: the method \<open>TaskRun.HasPipelineRunOwnerReference\<close> is not in
  the source files. The spec gives a run "an optional owner reference to a parent
  aggregate run"; the method holds when that reference is present.
\<close>

definition HasPipelineRunOwnerReference :: "TaskRun \<Rightarrow> bool" where
  "HasPipelineRunOwnerReference tr = (OwnerReference tr \<noteq> None)"

text \<open>
  Modelled from the spec: the method \<open>TaskRun.IsDone\<close> is not in the source files. The
  spec calls a run done when "it has reached a terminal condition
  (succeeded or failed, not unknown)": some condition record of type \<open>Succeeded\<close> has a
  status other than \<open>Unknown\<close>. This is the same test \<open>taskRunFinishTime\<close> applies to each
  record.
\<close>

definition terminal :: "Condition \<Rightarrow> bool" where
  "terminal con = (Type con = ConditionSucceeded \<and> Status con \<noteq> ConditionUnknown)"

definition IsDone :: "TaskRun \<Rightarrow> bool" where
  "IsDone tr = list_ex terminal (Conditions tr)"

subsection \<open>Errors, effects and the reconciler's environment\<close>

datatype error =
    ErrShouldNotBeCleanedUp string string
  | ErrNoFinishTime string string
  | ErrNoSucceededStatus string string
  | ErrNotFound
  | ErrStore string
  | PanicNilDereference

text \<open>
  \<open>ErrShouldNotBeCleanedUp ns n\<close> is "TaskRun ns/n should not be cleaned up",
  \<open>ErrNoFinishTime ns n\<close> is "unable to find the time when the taskRun ns/n succeeded",
  \<open>ErrNoSucceededStatus ns n\<close> is "unable to find the status of the succeeded taskRun
  ns/n". \<open>ErrNotFound\<close> is the store's not-found status error and \<open>ErrStore\<close> any other
  error of the store client. \<open>PanicNilDereference\<close> stands for the run-time panic of
  reading \<open>.Duration\<close> through a nil \<open>ExpirationSecondsTTL\<close>.
\<close>

definition IsNotFound :: "error option \<Rightarrow> bool" where
  "IsNotFound err = (err = Some ErrNotFound)"

datatype PropagationPolicy =
  DeletePropagationOrphan | DeletePropagationBackground | DeletePropagationForeground

record DeleteOptions =
  PropagationPolicy :: "PropagationPolicy option"
  Preconditions_UID :: "string option"

text \<open>
  The calls the reconciler makes on its collaborators, in the order made. The work queue
  keys an object by namespace and name. Logger calls only write to the log and are not
  recorded.
\<close>

datatype effect =
    Enqueue "string \<times> string"
  | EnqueueAfter "string \<times> string" Duration
  | Get string string
  | Delete string string DeleteOptions

text \<open>
  The reconciler \<open>tc\<close>: its injected clock, given by the value of each successive reading,
  and the answers of the store client.
\<close>

record Reconciler =
  clock :: "nat \<Rightarrow> time"
  TaskRuns_Get :: "string \<Rightarrow> string \<Rightarrow> error + TaskRun"
  TaskRuns_Delete :: "string \<Rightarrow> string \<Rightarrow> DeleteOptions \<Rightarrow> error option"

record world =
  reads :: nat
  trace :: "effect list"

definition key_of :: "TaskRun \<Rightarrow> string \<times> string" where
  "key_of tr = (Namespace tr, Name tr)"

definition emit :: "effect \<Rightarrow> world \<Rightarrow> world" where
  "emit e w = w\<lparr>trace := trace w @ [e]\<rparr>"

definition clock_Now :: "Reconciler \<Rightarrow> world \<Rightarrow> time \<times> world" where
  "clock_Now tc w = (clock tc (reads w), w\<lparr>reads := Suc (reads w)\<rparr>)"

subsection \<open>The reconciler\<close>

definition taskRunCleanup :: "TaskRun \<Rightarrow> bool" where
  "taskRunCleanup tr =
     (ExpirationSecondsTTL tr \<noteq> None \<and> IsDone tr \<and> \<not> HasPipelineRunOwnerReference tr)"

fun finishTime_loop :: "string \<Rightarrow> string \<Rightarrow> Condition list \<Rightarrow> error + time" where
  "finishTime_loop ns n [] = Inl (ErrNoSucceededStatus ns n)"
| "finishTime_loop ns n (con # cons) =
     (if Type con = ConditionSucceeded \<and> Status con \<noteq> ConditionUnknown
      then (if Time_IsZero (LastTransitionTime con)
            then Inl (ErrNoFinishTime ns n)
            else Inr (LastTransitionTime con))
      else finishTime_loop ns n cons)"

definition taskRunFinishTime :: "TaskRun \<Rightarrow> error + time" where
  "taskRunFinishTime tr = finishTime_loop (Namespace tr) (Name tr) (Conditions tr)"

definition getFinishAndExpireTime :: "TaskRun \<Rightarrow> error + (time \<times> time)" where
  "getFinishAndExpireTime tr =
     (if \<not> taskRunCleanup tr
      then Inl (ErrShouldNotBeCleanedUp (Namespace tr) (Name tr))
      else case taskRunFinishTime tr of
             Inl err \<Rightarrow> Inl err
           | Inr finishAt \<Rightarrow>
               (case ExpirationSecondsTTL tr of
                  None \<Rightarrow> Inl PanicNilDereference
                | Some ttl \<Rightarrow>
                    (let finishAtUTC = Time_UTC finishAt;
                         expireAtUTC = Time_Add finishAtUTC ttl
                     in Inr (finishAtUTC, expireAtUTC))))"

text \<open>
  \<open>trTimeLeft\<close> also compares the finish time with \<open>since\<close>; the comparison decides
  only whether a warning about clock skew is logged, and the computation goes on either way.
\<close>

definition trTimeLeft :: "TaskRun \<Rightarrow> time \<Rightarrow> error + Duration" where
  "trTimeLeft tr since =
     (case getFinishAndExpireTime tr of
        Inl err \<Rightarrow> Inl err
      | Inr (finishAt, expireAt) \<Rightarrow> Inr (Time_Sub (Time_UTC expireAt) (Time_UTC since)))"

definition processTrTTL ::
  "Reconciler \<Rightarrow> TaskRun \<Rightarrow> world \<Rightarrow> (bool \<times> error option) \<times> world" where
  "processTrTTL tc tr w =
     (if DeletionTimestamp tr \<noteq> None \<or> \<not> taskRunCleanup tr then ((False, None), w)
      else case clock_Now tc w of
        (now, w1) \<Rightarrow>
          (case trTimeLeft tr now of
             Inl err \<Rightarrow> ((False, Some err), w1)
           | Inr t \<Rightarrow>
               if t \<le> 0 then ((True, None), w1)
               else ((False, None), emit (EnqueueAfter (key_of tr) t) w1)))"

definition processTaskRunExpired ::
  "Reconciler \<Rightarrow> string \<Rightarrow> string \<Rightarrow> TaskRun \<Rightarrow> world \<Rightarrow> error option \<times> world" where
  "processTaskRunExpired tc namespace name tr w =
     (if HasPipelineRunOwnerReference tr then (None, w)
      else case processTrTTL tc tr w of
        ((expired, err), w1) \<Rightarrow>
          if err \<noteq> None then (err, w1)
          else if \<not> expired then (None, w1)
          else
            (let w2 = emit (Get namespace name) w1 in
             case TaskRuns_Get tc namespace name of
               Inl e \<Rightarrow> if IsNotFound (Some e) then (None, w2) else (Some e, w2)
             | Inr fresh \<Rightarrow>
                 if HasPipelineRunOwnerReference fresh then (None, w2)
                 else case processTrTTL tc fresh w2 of
                   ((expired', err'), w3) \<Rightarrow>
                     if err' \<noteq> None then (err', w3)
                     else if \<not> expired' then (None, w3)
                     else
                       (let policy = DeletePropagationForeground;
                            options = \<lparr>PropagationPolicy = Some policy,
                                       Preconditions_UID = Some (UID fresh)\<rparr>
                        in (TaskRuns_Delete tc (Namespace fresh) (Name fresh) options,
                            emit (Delete (Namespace fresh) (Name fresh) options) w3))))"

text \<open>
  The event handlers receive the object already typed as a TaskRun. \<open>UpdateTaskRun\<close> looks
  at the current object only.
\<close>

definition AddTaskRun :: "Reconciler \<Rightarrow> TaskRun \<Rightarrow> world \<Rightarrow> world" where
  "AddTaskRun tc tr w =
     (if DeletionTimestamp tr = None \<and> taskRunCleanup tr then emit (Enqueue (key_of tr)) w
      else w)"

definition UpdateTaskRun :: "Reconciler \<Rightarrow> TaskRun \<Rightarrow> TaskRun \<Rightarrow> world \<Rightarrow> world" where
  "UpdateTaskRun tc old cur w =
     (if DeletionTimestamp cur = None \<and> taskRunCleanup cur then emit (Enqueue (key_of cur)) w
      else w)"

section \<open>Task specification validator\<close>

subsection \<open>Field errors\<close>

text \<open>
  An \<open>apis.FieldError\<close> carries a message, field paths and details. The message is kept as
  the format that produced it together with the format's arguments, one constructor per
  message of the validator:
  \<^item> \<open>MissingFields\<close>: "missing field(s)"
  \<^item> \<open>InvalidValue v\<close>: "invalid value: v"
  \<^item> \<open>MergeError e\<close>: "error merging step template and steps: e"
  \<^item> \<open>InvalidStepName n\<close>: "invalid value "n""
  \<^item> \<open>MultipleVolumes n\<close>: "multiple volumes with same name "n""
  \<^item> \<open>ScriptWithArgsOrCommand\<close>: "script cannot be used with args or command"
  \<^item> \<open>ScriptWithoutShebang\<close>: "script must start with a shebang (#!)"
  \<^item> \<open>DefaultTypeMismatch t d\<close>: ""t" type does not match default value's type: "d""
  \<^item> \<open>UndeclaredVariable\<close>, \<open>ArrayInScalarContext\<close>, \<open>ArrayNotIsolated\<close>: the three
    violations of the variable usage analysis, each with the field's value, the location
    name and the field's name.
\<close>

datatype message =
    MissingFields
  | InvalidValue string
  | MergeError string
  | InvalidStepName string
  | MultipleVolumes string
  | ScriptWithArgsOrCommand
  | ScriptWithoutShebang
  | DefaultTypeMismatch string string
  | UndeclaredVariable string string string
  | ArrayInScalarContext string string string
  | ArrayNotIsolated string string string

record FieldError =
  Message :: message
  Paths :: "string list"
  Details :: string

definition CurrentField :: string where
  "CurrentField = ''''"

definition ErrMissingField :: "string list \<Rightarrow> FieldError" where
  "ErrMissingField fieldPaths = \<lparr>Message = MissingFields, Paths = fieldPaths, Details = ''''\<rparr>"

definition ErrInvalidValue :: "string \<Rightarrow> string \<Rightarrow> FieldError" where
  "ErrInvalidValue v fieldPath = \<lparr>Message = InvalidValue v, Paths = [fieldPath], Details = ''''\<rparr>"

text \<open>
  \<open>FieldError.ViaField\<close> prefixes every path of an error and maps nil to nil. The paths
  the validator passes through it have one segment (\<open>name\<close>, \<open>Image\<close>, \<open>script\<close>); for
  these, joining is a dot between prefix and path, no dot before an index and nothing added
  for the empty current-field path.
\<close>

definition isIndex :: "string \<Rightarrow> bool" where
  "isIndex part = (part \<noteq> [] \<and> hd part = CHR ''['' \<and> last part = CHR '']'')"

definition flatten :: "string \<Rightarrow> string \<Rightarrow> string" where
  "flatten prefix path =
     (if path = CurrentField then prefix
      else if prefix = CurrentField then path
      else if isIndex path then prefix @ path
      else prefix @ ''.'' @ path)"

definition ViaField :: "string \<Rightarrow> FieldError option \<Rightarrow> FieldError option" where
  "ViaField prefix fe =
     (case fe of
        None \<Rightarrow> None
      | Some e \<Rightarrow> Some (e\<lparr>Paths := map (flatten prefix) (Paths e)\<rparr>))"

subsection \<open>Task specifications\<close>

text \<open>
  The fields of a \<open>TaskSpec\<close> and of its parts that the validator reads. A \<open>Step\<close> embeds
  a container and adds the script; the step template is a container. The type and the
  validation of \<open>Resources\<close> are declared elsewhere: the type is a parameter here and its
  \<open>Validate\<close> method an argument of \<open>TaskSpec_Validate\<close>.
\<close>

record EnvVar =
  EnvVar_Name :: string
  EnvVar_Value :: string

record VolumeMount =
  VolumeMount_Name :: string
  MountPath :: string
  SubPath :: string

record Container =
  Container_Name :: string
  Container_Image :: string
  Command :: "string list"
  Args :: "string list"
  WorkingDir :: string
  Env :: "EnvVar list"
  VolumeMounts :: "VolumeMount list"

record Step = Container +
  Script :: string

record Volume =
  Volume_Name :: string

text \<open>
  Modelled from the spec: the declarations of \<open>ParamType\<close> and \<open>AllParamTypes\<close> are not
  in the source files. The spec fixes the recognized parameter types as
  "\<open>{string, array}\<close> (exactly these two in this scope)"; a \<open>ParamType\<close> is a string.
\<close>

definition ParamTypeString :: string where
  "ParamTypeString = ''string''"

definition ParamTypeArray :: string where
  "ParamTypeArray = ''array''"

definition AllParamTypes :: "string list" where
  "AllParamTypes = [ParamTypeString, ParamTypeArray]"

record ArrayOrString =
  ArrayOrString_Type :: string
  StringVal :: string
  ArrayVal :: "string list"

record ParamSpec =
  ParamSpec_Name :: string
  ParamSpec_Type :: string
  Default :: "ArrayOrString option"

record 'r TaskSpec =
  Resources :: "'r option"
  Params :: "ParamSpec list"
  Steps :: "Step list"
  Volumes :: "Volume list"
  StepTemplate :: "Container option"

subsection \<open>Returning the first error\<close>

text \<open>
  \<open>orElse r rest\<close> is "\<open>if err := r; err != nil { return err }\<close>, then \<open>rest\<close>";
  \<open>firstErr check xs\<close> is a \<open>for\<close> loop over \<open>xs\<close> whose body is that statement.
  \<open>itoa\<close> is the decimal rendering that \<open>%d\<close> gives an index.
\<close>

definition orElse :: "'e option \<Rightarrow> 'e option \<Rightarrow> 'e option" where
  "orElse r rest = (case r of Some err \<Rightarrow> Some err | None \<Rightarrow> rest)"

fun firstErr :: "('a \<Rightarrow> 'e option) \<Rightarrow> 'a list \<Rightarrow> 'e option" where
  "firstErr check [] = None"
| "firstErr check (x # xs) =
     (case check x of Some err \<Rightarrow> Some err | None \<Rightarrow> firstErr check xs)"

function itoa :: "nat \<Rightarrow> string" where
  "itoa n = (if n < 10 then [''0123456789'' ! n]
             else itoa (n div 10) @ [''0123456789'' ! (n mod 10)])"
  by pat_completeness auto
termination
  by (relation "measure id") auto

declare itoa.simps [simp del]

subsection \<open>Variable references\<close>

text \<open>
  Modelled from the spec: the package \<open>substitution\<close> (\<open>ValidateVariable\<close>,
  \<open>ValidateVariableProhibited\<close>, \<open>ValidateVariableIsolated\<close> and the scanner they share) is
  not in the source files. The spec describes a variable reference as "a
  textual occurrence of a template placeholder bound to a declared parameter name" and
  writes its examples as \<open>$(params.list)\<close>. The scanner below reads a field from left to
  right and recognizes, without overlap, every placeholder \<open>$(prefix.name)\<close> whose name
  starts with a letter or an underscore and continues with letters, digits, underscores,
  dots and hyphens. Each match is returned with its text and its name.
\<close>

definition letters :: string where
  "letters = ''abcdefghijklmnopqrstuvwxyzABCDEFGHIJKLMNOPQRSTUVWXYZ''"

definition name_start :: "char \<Rightarrow> bool" where
  "name_start c = (c = CHR ''_'' \<or> c \<in> set letters)"

definition name_char :: "char \<Rightarrow> bool" where
  "name_char c = (name_start c \<or> c \<in> set ''0123456789'' \<or> c = CHR ''.'' \<or> c = CHR ''-'')"

definition placeholder :: "string \<Rightarrow> string \<Rightarrow> string" where
  "placeholder prefix v = ''$('' @ prefix @ ''.'' @ v @ '')''"

fun strip_prefix :: "string \<Rightarrow> string \<Rightarrow> string option" where
  "strip_prefix [] s = Some s"
| "strip_prefix (p # ps) [] = None"
| "strip_prefix (p # ps) (c # cs) = (if p = c then strip_prefix ps cs else None)"

definition matchAt :: "string \<Rightarrow> string \<Rightarrow> (string \<times> string) option" where
  "matchAt prefix s =
     (case strip_prefix (''$('' @ prefix @ ''.'') s of
        None \<Rightarrow> None
      | Some r \<Rightarrow>
          (let v = takeWhile name_char r; r' = dropWhile name_char r
           in if v \<noteq> [] \<and> name_start (hd v) \<and> r' \<noteq> [] \<and> hd r' = CHR '')''
              then Some (v, tl r') else None))"

function extractMatches :: "string \<Rightarrow> string \<Rightarrow> (string \<times> string) list" where
  "extractMatches prefix [] = []"
| "extractMatches prefix (c # cs) =
     (case matchAt prefix (c # cs) of
        None \<Rightarrow> extractMatches prefix cs
      | Some (v, rest) \<Rightarrow> (placeholder prefix v, v) # extractMatches prefix rest)"
  by pat_completeness auto
termination
proof (relation "measure (\<lambda>(prefix, s). length s)", goal_cases)
  case 1
  show ?case by simp
next
  case (2 prefix c cs)
  show ?case by simp
next
  case (3 prefix c cs x2 v rest)
  have stripped: "length s = length p + length r" if "strip_prefix p s = Some r" for p s r
    using that by (induction p s rule: strip_prefix.induct) (auto split: if_splits)
  from 3 obtain r where r: "strip_prefix (''$('' @ prefix @ ''.'') (c # cs) = Some r"
    and rest: "rest = tl (dropWhile name_char r)" and ne: "dropWhile name_char r \<noteq> []"
    by (auto simp: matchAt_def Let_def split: option.splits if_splits)
  have "length rest < length (dropWhile name_char r)"
    using rest ne by (cases "dropWhile name_char r") auto
  also have "\<dots> \<le> length r"
    by (rule length_dropWhile_le)
  also have "\<dots> \<le> length (c # cs)"
    using stripped [OF r] by simp
  finally show ?case by simp
qed

definition extractVariablesFromString :: "string \<Rightarrow> string \<Rightarrow> string list" where
  "extractVariablesFromString s prefix = map snd (extractMatches prefix s)"

text \<open>
  Modelled from the spec: "any reference to an undeclared parameter name is an error
  regardless of context". \<open>vars\<close> is the set of declared names.
\<close>

definition ValidateVariable ::
  "string \<Rightarrow> string \<Rightarrow> string \<Rightarrow> string \<Rightarrow> string \<Rightarrow> string \<Rightarrow> string set
     \<Rightarrow> FieldError option" where
  "ValidateVariable name v prefix contextPrefix locationName path vars =
     (if list_ex (\<lambda>x. x \<notin> vars) (extractVariablesFromString v (contextPrefix @ prefix))
      then Some \<lparr>Message = UndeclaredVariable v locationName name,
                 Paths = [path @ ''.'' @ name], Details = ''''\<rparr>
      else None)"

text \<open>
  Modelled from the spec: in a scalar-context field "any reference inside it to a parameter
  of array type is an error". \<open>vars\<close> is the set of array-typed names.
\<close>

definition ValidateVariableProhibited ::
  "string \<Rightarrow> string \<Rightarrow> string \<Rightarrow> string \<Rightarrow> string \<Rightarrow> string \<Rightarrow> string set
     \<Rightarrow> FieldError option" where
  "ValidateVariableProhibited name v prefix contextPrefix locationName path vars =
     (if list_ex (\<lambda>x. x \<in> vars) (extractVariablesFromString v (contextPrefix @ prefix))
      then Some \<lparr>Message = ArrayInScalarContext v locationName name,
                 Paths = [path @ ''.'' @ name], Details = ''''\<rparr>
      else None)"

text \<open>
  Modelled from the spec: in an array-eligible field, "if the field contains a reference to
  an array-typed parameter, that reference must be the field's entire content (no
  surrounding literal text, no concatenation with another reference)". \<open>vars\<close> is the set
  of array-typed names.
\<close>

definition ValidateVariableIsolated ::
  "string \<Rightarrow> string \<Rightarrow> string \<Rightarrow> string \<Rightarrow> string \<Rightarrow> string \<Rightarrow> string set
     \<Rightarrow> FieldError option" where
  "ValidateVariableIsolated name v prefix contextPrefix locationName path vars =
     (if list_ex (\<lambda>(expr, x). x \<in> vars \<and> expr \<noteq> v) (extractMatches (contextPrefix @ prefix) v)
      then Some \<lparr>Message = ArrayNotIsolated v locationName name,
                 Paths = [path @ ''.'' @ name], Details = ''''\<rparr>
      else None)"

subsection \<open>The variable usage analysis\<close>

definition validateTaskVariable ::
  "string \<Rightarrow> string \<Rightarrow> string \<Rightarrow> string set \<Rightarrow> FieldError option" where
  "validateTaskVariable name v prefix vars =
     ValidateVariable name v prefix '''' ''step'' ''taskspec.steps'' vars"

definition validateTaskNoArrayReferenced ::
  "string \<Rightarrow> string \<Rightarrow> string \<Rightarrow> string set \<Rightarrow> FieldError option" where
  "validateTaskNoArrayReferenced name v prefix arrayNames =
     ValidateVariableProhibited name v prefix '''' ''step'' ''taskspec.steps'' arrayNames"

definition validateTaskArraysIsolated ::
  "string \<Rightarrow> string \<Rightarrow> string \<Rightarrow> string set \<Rightarrow> FieldError option" where
  "validateTaskArraysIsolated name v prefix arrayNames =
     ValidateVariableIsolated name v prefix '''' ''step'' ''taskspec.steps'' arrayNames"

text \<open>
  The body of the loop over steps in \<open>validateVariables\<close>, and the loop.
\<close>

definition validateVariables_step :: "Step \<Rightarrow> string \<Rightarrow> string set \<Rightarrow> FieldError option" where
  "validateVariables_step step prefix vars =
     orElse (validateTaskVariable ''name'' (Container_Name step) prefix vars)
    (orElse (validateTaskVariable ''image'' (Container_Image step) prefix vars)
    (orElse (validateTaskVariable ''workingDir'' (WorkingDir step) prefix vars)
    (orElse (firstErr (\<lambda>(i, cmd).
               validateTaskVariable (''command['' @ itoa i @ '']'') cmd prefix vars)
               (enumerate 0 (Command step)))
    (orElse (firstErr (\<lambda>(i, arg).
               validateTaskVariable (''arg['' @ itoa i @ '']'') arg prefix vars)
               (enumerate 0 (Args step)))
    (orElse (firstErr (\<lambda>env.
               validateTaskVariable (''env['' @ EnvVar_Name env @ '']'') (EnvVar_Value env)
                 prefix vars)
               (Env step))
            (firstErr (\<lambda>(i, v).
               orElse (validateTaskVariable (''volumeMount['' @ itoa i @ ''].Name'')
                         (VolumeMount_Name v) prefix vars)
              (orElse (validateTaskVariable (''volumeMount['' @ itoa i @ ''].MountPath'')
                         (MountPath v) prefix vars)
                      (validateTaskVariable (''volumeMount['' @ itoa i @ ''].SubPath'')
                         (SubPath v) prefix vars)))
               (enumerate 0 (VolumeMounts step))))))))"

definition validateVariables :: "Step list \<Rightarrow> string \<Rightarrow> string set \<Rightarrow> FieldError option" where
  "validateVariables steps prefix vars =
     firstErr (\<lambda>step. validateVariables_step step prefix vars) steps"

text \<open>
  The body of the loop over steps in \<open>validateArrayUsage\<close>, and the loop.
\<close>

definition validateArrayUsage_step :: "Step \<Rightarrow> string \<Rightarrow> string set \<Rightarrow> FieldError option" where
  "validateArrayUsage_step step prefix vars =
     orElse (validateTaskNoArrayReferenced ''name'' (Container_Name step) prefix vars)
    (orElse (validateTaskNoArrayReferenced ''image'' (Container_Image step) prefix vars)
    (orElse (validateTaskNoArrayReferenced ''workingDir'' (WorkingDir step) prefix vars)
    (orElse (firstErr (\<lambda>(i, cmd).
               validateTaskArraysIsolated (''command['' @ itoa i @ '']'') cmd prefix vars)
               (enumerate 0 (Command step)))
    (orElse (firstErr (\<lambda>(i, arg).
               validateTaskArraysIsolated (''arg['' @ itoa i @ '']'') arg prefix vars)
               (enumerate 0 (Args step)))
    (orElse (firstErr (\<lambda>env.
               validateTaskNoArrayReferenced (''env['' @ EnvVar_Name env @ '']'')
                 (EnvVar_Value env) prefix vars)
               (Env step))
            (firstErr (\<lambda>(i, v).
               orElse (validateTaskNoArrayReferenced (''volumeMount['' @ itoa i @ ''].Name'')
                         (VolumeMount_Name v) prefix vars)
              (orElse (validateTaskNoArrayReferenced (''volumeMount['' @ itoa i @ ''].MountPath'')
                         (MountPath v) prefix vars)
                      (validateTaskNoArrayReferenced (''volumeMount['' @ itoa i @ ''].SubPath'')
                         (SubPath v) prefix vars)))
               (enumerate 0 (VolumeMounts step))))))))"

definition validateArrayUsage :: "Step list \<Rightarrow> string \<Rightarrow> string set \<Rightarrow> FieldError option" where
  "validateArrayUsage steps prefix vars =
     firstErr (\<lambda>step. validateArrayUsage_step step prefix vars) steps"

text \<open>
  The two sets that \<open>validateParameterVariables\<close> builds in its loop over the parameters:
  all declared names, and the names declared with array type.
\<close>

definition parameterNames :: "ParamSpec list \<Rightarrow> string set" where
  "parameterNames params = set (map ParamSpec_Name params)"

definition arrayParameterNames :: "ParamSpec list \<Rightarrow> string set" where
  "arrayParameterNames params =
     set (map ParamSpec_Name (filter (\<lambda>p. ParamSpec_Type p = ParamTypeArray) params))"

definition validateParameterVariables :: "Step list \<Rightarrow> ParamSpec list \<Rightarrow> FieldError option" where
  "validateParameterVariables steps params =
     (case validateVariables steps ''params'' (parameterNames params) of
        Some err \<Rightarrow> Some err
      | None \<Rightarrow> validateArrayUsage steps ''params'' (arrayParameterNames params))"

subsection \<open>The structural checks\<close>

fun ValidateVolumes_loop :: "string set \<Rightarrow> Volume list \<Rightarrow> FieldError option" where
  "ValidateVolumes_loop vols [] = None"
| "ValidateVolumes_loop vols (v # vs) =
     (if Volume_Name v \<in> vols
      then Some \<lparr>Message = MultipleVolumes (Volume_Name v), Paths = [''name''], Details = ''''\<rparr>
      else ValidateVolumes_loop (insert (Volume_Name v) vols) vs)"

definition ValidateVolumes :: "Volume list \<Rightarrow> FieldError option" where
  "ValidateVolumes volumes = ValidateVolumes_loop {} volumes"

text \<open>
  \<open>strings.TrimSpace\<close> removes the leading and the trailing white space of a string, as
  \<open>unicode.IsSpace\<close> defines it. A Go string is a sequence of bytes read as UTF-8;
  \<open>whiteSpace\<close> lists the encodings of the white-space code points: tab, line feed,
  vertical tab, form feed, carriage return, space, U+0085, U+00A0, U+1680, U+2000 to U+200A,
  U+2028, U+2029, U+202F, U+205F and U+3000. A leading or trailing rune is one of them exactly
  when the string starts, respectively ends, with one of these encodings; bytes that are not
  valid UTF-8 are no white space.
\<close>

definition whiteSpace :: "string list" where
  "whiteSpace =
     [[CHR 0x09], [CHR 0x0A], [CHR 0x0B], [CHR 0x0C], [CHR 0x0D], [CHR 0x20],
      [CHR 0xC2, CHR 0x85], [CHR 0xC2, CHR 0xA0],
      [CHR 0xE1, CHR 0x9A, CHR 0x80],
      [CHR 0xE2, CHR 0x80, CHR 0x80], [CHR 0xE2, CHR 0x80, CHR 0x81],
      [CHR 0xE2, CHR 0x80, CHR 0x82], [CHR 0xE2, CHR 0x80, CHR 0x83],
      [CHR 0xE2, CHR 0x80, CHR 0x84], [CHR 0xE2, CHR 0x80, CHR 0x85],
      [CHR 0xE2, CHR 0x80, CHR 0x86], [CHR 0xE2, CHR 0x80, CHR 0x87],
      [CHR 0xE2, CHR 0x80, CHR 0x88], [CHR 0xE2, CHR 0x80, CHR 0x89],
      [CHR 0xE2, CHR 0x80, CHR 0x8A],
      [CHR 0xE2, CHR 0x80, CHR 0xA8], [CHR 0xE2, CHR 0x80, CHR 0xA9],
      [CHR 0xE2, CHR 0x80, CHR 0xAF],
      [CHR 0xE2, CHR 0x81, CHR 0x9F],
      [CHR 0xE3, CHR 0x80, CHR 0x80]]"

function stripLeading :: "string list \<Rightarrow> string \<Rightarrow> string" where
  "stripLeading es s =
     (case find (\<lambda>e. e \<noteq> [] \<and> take (length e) s = e) es of
        None \<Rightarrow> s
      | Some e \<Rightarrow> stripLeading es (drop (length e) s))"
  by pat_completeness auto
termination
proof (relation "measure (\<lambda>(es, s). length s)", goal_cases)
  case 1
  show ?case by simp
next
  case (2 es s e)
  then have ne: "e \<noteq> []" and pre: "take (length e) s = e"
    by (auto simp: find_Some_iff)
  from pre have "length (take (length e) s) = length e"
    by simp
  then have le: "length e \<le> length s"
    by simp
  from ne le show ?case
    by (cases e) auto
qed

declare stripLeading.simps [simp del]

definition TrimSpace :: "string \<Rightarrow> string" where
  "TrimSpace s = rev (stripLeading (map rev whiteSpace) (rev (stripLeading whiteSpace s)))"

definition HasPrefix :: "string \<Rightarrow> string \<Rightarrow> bool" where
  "HasPrefix s p = (take (length p) s = p)"

fun validateSteps_loop :: "string set \<Rightarrow> Step list \<Rightarrow> FieldError option" where
  "validateSteps_loop names [] = None"
| "validateSteps_loop names (s # ss) =
     (if Container_Image s = '''' then Some (ErrMissingField [''Image''])
      else if Script s \<noteq> '''' \<and> (length (Args s) > 0 \<or> length (Command s) > 0)
      then Some \<lparr>Message = ScriptWithArgsOrCommand, Paths = [''script''], Details = ''''\<rparr>
      else if Script s \<noteq> '''' \<and> \<not> HasPrefix (TrimSpace (Script s)) ''#!''
      then Some \<lparr>Message = ScriptWithoutShebang, Paths = [''script''], Details = ''''\<rparr>
      else if Container_Name s = '''' then validateSteps_loop names ss
      else if Container_Name s \<in> names then Some (ErrInvalidValue (Container_Name s) ''name'')
      else validateSteps_loop (insert (Container_Name s) names) ss)"

definition validateSteps :: "Step list \<Rightarrow> FieldError option" where
  "validateSteps steps = validateSteps_loop {} steps"

definition validType :: "string \<Rightarrow> bool" where
  "validType t = foldl (\<lambda>valid allowedType. if t = allowedType then True else valid)
                   False AllParamTypes"

fun validateParameterTypes :: "ParamSpec list \<Rightarrow> FieldError option" where
  "validateParameterTypes [] = None"
| "validateParameterTypes (p # ps) =
     (if \<not> validType (ParamSpec_Type p)
      then Some (ErrInvalidValue (ParamSpec_Type p)
                   (''taskspec.params.'' @ ParamSpec_Name p @ ''.type''))
      else case Default p of
        None \<Rightarrow> validateParameterTypes ps
      | Some d \<Rightarrow>
          if ArrayOrString_Type d \<noteq> ParamSpec_Type p
          then Some \<lparr>Message = DefaultTypeMismatch (ParamSpec_Type p) (ArrayOrString_Type d),
                     Paths = [''taskspec.params.'' @ ParamSpec_Name p @ ''.type'',
                              ''taskspec.params.'' @ ParamSpec_Name p @ ''.default.type''],
                     Details = ''''\<rparr>
          else validateParameterTypes ps)"

text \<open>
  \<open>validation.IsDNS1123Label\<close> of the Kubernetes library: the list of complaints about a
  name, empty when the name has at most 63 characters, consists of lower case letters,
  digits and hyphens, and starts and ends with a letter or digit.
\<close>

definition alnum :: "char \<Rightarrow> bool" where
  "alnum c = (c \<in> set ''abcdefghijklmnopqrstuvwxyz0123456789'')"

definition IsDNS1123Label :: "string \<Rightarrow> string list" where
  "IsDNS1123Label v =
     (if length v > 63 then [''must be no more than 63 characters''] else [])
     @ (if v \<noteq> [] \<and> alnum (hd v) \<and> alnum (last v)
           \<and> list_all (\<lambda>c. alnum c \<or> c = CHR ''-'') v
        then [] else [''a DNS-1123 label must consist of lower case alphanumeric characters or -, and must start and end with an alphanumeric character''])"

definition stepNameDetails :: string where
  "stepNameDetails = ''Task step name must be a valid DNS Label, For more info refer to https://kubernetes.io/docs/concepts/overview/working-with-objects/names/#names''"

text \<open>The loop over \<open>ts.Steps\<close> under "Validate task step names".\<close>

fun validateStepNames :: "Step list \<Rightarrow> FieldError option" where
  "validateStepNames [] = None"
| "validateStepNames (step # steps) =
     (if Container_Name step \<noteq> '''' \<and> length (IsDNS1123Label (Container_Name step)) > 0
      then Some \<lparr>Message = InvalidStepName (Container_Name step),
                 Paths = [''taskspec.steps.name''], Details = stepNameDetails\<rparr>
      else validateStepNames steps)"

text \<open>
  Modelled from the spec: \<open>MergeStepsWithStepTemplate\<close> is not in the source files. The
  spec: "merge the shared step template into each step (template fields are defaults,
  explicit step fields win)"; a failure to merge is an error, and the later checks work on
  "the merged steps". A field of a step that is empty takes the template's value. The
  function is handed the slice \<open>ts.Steps\<close> itself and merges into each of its steps, so
  the caller's slice holds the merged steps afterwards: the result is the returned value
  paired with the contents of that slice after the call. On typed containers no merge
  fails.
\<close>

definition mergeField :: "'a list \<Rightarrow> 'a list \<Rightarrow> 'a list" where
  "mergeField template own = (if own = [] then template else own)"

definition mergeStep :: "Container \<Rightarrow> Step \<Rightarrow> Step" where
  "mergeStep template s =
     s\<lparr>Container_Name := mergeField (Container_Name template) (Container_Name s),
       Container_Image := mergeField (Container_Image template) (Container_Image s),
       Command := mergeField (Command template) (Command s),
       Args := mergeField (Args template) (Args s),
       WorkingDir := mergeField (WorkingDir template) (WorkingDir s),
       Env := mergeField (Env template) (Env s),
       VolumeMounts := mergeField (VolumeMounts template) (VolumeMounts s)\<rparr>"

definition MergeStepsWithStepTemplate ::
  "Container option \<Rightarrow> Step list \<Rightarrow> (string + Step list) \<times> Step list" where
  "MergeStepsWithStepTemplate template steps =
     (case template of
        None \<Rightarrow> (Inr steps, steps)
      | Some t \<Rightarrow> (let merged = map (mergeStep t) steps in (Inr merged, merged)))"

subsection \<open>The validator\<close>

text \<open>
  \<open>equality.Semantic.DeepEqual(ts, &TaskSpec{})\<close> is equality with the specification all
  of whose fields are empty.
\<close>

definition emptyTaskSpec :: "'r TaskSpec" where
  "emptyTaskSpec = \<lparr>Resources = None, Params = [], Steps = [], Volumes = [], StepTemplate = None\<rparr>"

text \<open>
  After the call of \<open>MergeStepsWithStepTemplate\<close> the specification is \<open>ts'\<close>, whose
  \<open>Steps\<close> are what the call left in the slice; the later reads of \<open>ts.Steps\<close> see it.
\<close>

definition TaskSpec_Validate ::
  "('r option \<Rightarrow> FieldError option) \<Rightarrow> 'r TaskSpec \<Rightarrow> FieldError option" where
  "TaskSpec_Validate Resources_Validate ts =
     (if ts = emptyTaskSpec then Some (ErrMissingField [CurrentField])
      else if length (Steps ts) = 0 then Some (ErrMissingField [''steps''])
      else case ViaField ''volumes'' (ValidateVolumes (Volumes ts)) of
        Some err \<Rightarrow> Some err
      | None \<Rightarrow>
         (case MergeStepsWithStepTemplate (StepTemplate ts) (Steps ts) of
            (Inl err, steps') \<Rightarrow>
              Some \<lparr>Message = MergeError err, Paths = [''stepTemplate''], Details = ''''\<rparr>
          | (Inr mergedSteps, steps') \<Rightarrow>
             (let ts' = ts\<lparr>Steps := steps'\<rparr> in
              case ViaField ''steps'' (validateSteps mergedSteps) of
                Some err \<Rightarrow> Some err
              | None \<Rightarrow>
                 (case Resources_Validate (Resources ts') of
                    Some err \<Rightarrow> Some err
                  | None \<Rightarrow>
                     (case validateParameterTypes (Params ts') of
                        Some err \<Rightarrow> Some err
                      | None \<Rightarrow>
                         (case validateStepNames (Steps ts') of
                            Some err \<Rightarrow> Some err
                          | None \<Rightarrow> validateParameterVariables (Steps ts') (Params ts')))))))"

subsection \<open>The spec's eligibility predicate and example runs\<close>

text \<open>
  The spec's data model: "a Run is eligible for TTL cleanup iff its TTL is set, it has
  reached a terminal condition (succeeded or failed, not unknown), it has no parent-owner
  reference, and its deletion-timestamp is unset". This definition follows those words; it
  is compared below with the guard the code applies,
  \<open>tr.DeletionTimestamp == nil && taskRunCleanup(tr)\<close>.
\<close>

definition cleanup_eligible_spec :: "TaskRun \<Rightarrow> bool" where
  "cleanup_eligible_spec tr =
     (ExpirationSecondsTTL tr \<noteq> None
      \<and> list_ex (\<lambda>con. Type con = ''Succeeded''
                    \<and> (Status con = ConditionTrue \<or> Status con = ConditionFalse)) (Conditions tr)
      \<and> OwnerReference tr = None
      \<and> DeletionTimestamp tr = None)"

text \<open>The world after one more reading of the clock.\<close>

definition tick :: "world \<Rightarrow> world" where
  "tick w = w\<lparr>reads := Suc (reads w)\<rparr>"

text \<open>
  Example inputs. \<open>T0\<close> is an instant in the year 1997 and \<open>example_run\<close> a run that
  succeeded at \<open>T0\<close> with a TTL of 60 seconds and no owner (the scenario of the spec's
  testable properties). The variants differ from it in one field each.
\<close>

definition T0 :: time where
  "T0 = 63000000000000000000"

definition second :: Duration where
  "second = 1000000000"

definition example_run :: TaskRun where
  "example_run = \<lparr>Namespace = ''default'', Name = ''run'', UID = ''uid-1'',
     DeletionTimestamp = None, OwnerReference = None,
     ExpirationSecondsTTL = Some (60 * second),
     Conditions = [\<lparr>Type = ''Succeeded'', Status = ConditionTrue, LastTransitionTime = T0\<rparr>]\<rparr>"

definition extended_run :: TaskRun where
  "extended_run = example_run\<lparr>ExpirationSecondsTTL := Some (120 * second)\<rparr>"

definition owned_run :: TaskRun where
  "owned_run = example_run\<lparr>OwnerReference := Some ''pipeline-run''\<rparr>"

definition long_ttl_run :: TaskRun where
  "long_ttl_run = example_run\<lparr>ExpirationSecondsTTL := Some maxDuration\<rparr>"

definition untimed_run :: TaskRun where
  "untimed_run = example_run\<lparr>Conditions :=
     [\<lparr>Type = ''Succeeded'', Status = ConditionFalse, LastTransitionTime = 0\<rparr>]\<rparr>"

definition no_ttl_run :: TaskRun where
  "no_ttl_run = example_run\<lparr>ExpirationSecondsTTL := None\<rparr>"

text \<open>
  A reconciler whose clock always reads \<open>t\<close>, whose store answers every \<open>Get\<close> with
  \<open>answer\<close> and accepts every delete.
\<close>

definition reconciler_at :: "time \<Rightarrow> (error + TaskRun) \<Rightarrow> Reconciler" where
  "reconciler_at t answer = \<lparr>clock = (\<lambda>_. t), TaskRuns_Get = (\<lambda>_ _. answer),
     TaskRuns_Delete = (\<lambda>_ _ _. None)\<rparr>"

definition world0 :: world where
  "world0 = \<lparr>reads = 0, trace = []\<rparr>"

definition foreground_uid1 :: DeleteOptions where
  "foreground_uid1 = \<lparr>PropagationPolicy = Some DeletePropagationForeground,
                      Preconditions_UID = Some ''uid-1''\<rparr>"

subsection \<open>The spec's walk over the fields, and example specifications\<close>

text \<open>
  The spec's analyzer visits, for every step in declaration order, the fields name, image,
  workingDir, the command tokens, the argument tokens, the environment values and the
  volume mounts, the command and argument tokens being the array-eligible slots and all
  others scalar slots. \<open>stepFields\<close> lists a step's fields in that order, each with its
  slot kind, the name under which it is reported and its value.
\<close>

datatype slot = ScalarSlot | ArraySlot

definition stepFields :: "Step \<Rightarrow> (slot \<times> string \<times> string) list" where
  "stepFields step =
     [(ScalarSlot, ''name'', Container_Name step),
      (ScalarSlot, ''image'', Container_Image step),
      (ScalarSlot, ''workingDir'', WorkingDir step)]
     @ map (\<lambda>(i, cmd). (ArraySlot, ''command['' @ itoa i @ '']'', cmd)) (enumerate 0 (Command step))
     @ map (\<lambda>(i, arg). (ArraySlot, ''arg['' @ itoa i @ '']'', arg)) (enumerate 0 (Args step))
     @ map (\<lambda>env. (ScalarSlot, ''env['' @ EnvVar_Name env @ '']'', EnvVar_Value env)) (Env step)
     @ concat (map (\<lambda>(i, v).
         [(ScalarSlot, ''volumeMount['' @ itoa i @ ''].Name'', VolumeMount_Name v),
          (ScalarSlot, ''volumeMount['' @ itoa i @ ''].MountPath'', MountPath v),
          (ScalarSlot, ''volumeMount['' @ itoa i @ ''].SubPath'', SubPath v)])
         (enumerate 0 (VolumeMounts step)))"



text \<open>
  The violations of one field: a reference to an undeclared name, and a misuse of an
  array-typed name (any reference in a scalar slot, a non-isolated one in an array slot).
\<close>

definition undeclaredIn :: "string set \<Rightarrow> slot \<times> string \<times> string \<Rightarrow> FieldError option" where
  "undeclaredIn declared = (\<lambda>(k, name, v). validateTaskVariable name v ''params'' declared)"

definition arrayMisuseIn :: "string set \<Rightarrow> slot \<times> string \<times> string \<Rightarrow> FieldError option" where
  "arrayMisuseIn arrays = (\<lambda>(k, name, v).
     case k of
       ScalarSlot \<Rightarrow> validateTaskNoArrayReferenced name v ''params'' arrays
     | ArraySlot \<Rightarrow> validateTaskArraysIsolated name v ''params'' arrays)"

definition violationIn ::
  "string set \<Rightarrow> string set \<Rightarrow> slot \<times> string \<times> string \<Rightarrow> FieldError option" where
  "violationIn declared arrays f = orElse (undeclaredIn declared f) (arrayMisuseIn arrays f)"

text \<open>
  The analyzer as the spec words it: one walk over all fields that stops at the first field
  with a violation of any kind.
\<close>

definition firstViolation_onePass :: "Step list \<Rightarrow> ParamSpec list \<Rightarrow> FieldError option" where
  "firstViolation_onePass steps params =
     firstErr (violationIn (parameterNames params) (arrayParameterNames params))
       (concat (map stepFields steps))"

text \<open>
  Two walks in the same order: the first looks for references to undeclared names only, the
  second, made when the first found nothing, for misuses of array-typed names.
\<close>

definition firstViolation_twoPass :: "Step list \<Rightarrow> ParamSpec list \<Rightarrow> FieldError option" where
  "firstViolation_twoPass steps params =
     orElse (firstErr (undeclaredIn (parameterNames params)) (concat (map stepFields steps)))
            (firstErr (arrayMisuseIn (arrayParameterNames params)) (concat (map stepFields steps)))"

text \<open>
  The checks of \<open>TaskSpec.Validate\<close> that precede the variable usage analysis, in the
  order of the code: the specification is not empty, it has a step, volume names are
  unique, the template merges, the merged steps are well-formed, the resources and the
  parameter types are valid, the step names are DNS labels.
\<close>

definition checksBeforeVariables ::
  "('r option \<Rightarrow> FieldError option) \<Rightarrow> 'r TaskSpec \<Rightarrow> FieldError option" where
  "checksBeforeVariables Resources_Validate ts =
     (if ts = emptyTaskSpec then Some (ErrMissingField [CurrentField])
      else if length (Steps ts) = 0 then Some (ErrMissingField [''steps''])
      else orElse (ViaField ''volumes'' (ValidateVolumes (Volumes ts)))
        (case MergeStepsWithStepTemplate (StepTemplate ts) (Steps ts) of
           (Inl err, steps') \<Rightarrow>
             Some \<lparr>Message = MergeError err, Paths = [''stepTemplate''], Details = ''''\<rparr>
         | (Inr mergedSteps, steps') \<Rightarrow>
             orElse (ViaField ''steps'' (validateSteps mergedSteps))
            (orElse (Resources_Validate (Resources ts))
            (orElse (validateParameterTypes (Params ts))
                    (validateStepNames steps')))))"


text \<open>
  Example inputs: the parameter \<open>list\<close> of array type (the spec's scenario) and steps that
  refer to it.
\<close>

definition step0 :: Step where
  "step0 = \<lparr>Container_Name = '''', Container_Image = '''', Command = [], Args = [],
     WorkingDir = '''', Env = [], VolumeMounts = [], Script = ''''\<rparr>"

definition list_param :: ParamSpec where
  "list_param = \<lparr>ParamSpec_Name = ''list'', ParamSpec_Type = ''array'', Default = None\<rparr>"




definition two_violations_step :: Step where
  "two_violations_step =
     step0\<lparr>Container_Image := ''$(params.list)'', WorkingDir := ''$(params.nope)''\<rparr>"

definition template_container :: Container where
  "template_container = \<lparr>Container_Name = '''', Container_Image = ''ubuntu'', Command = [],
     Args = [''$(params.nope)''], WorkingDir = '''', Env = [], VolumeMounts = []\<rparr>"

definition template_spec :: "unit TaskSpec" where
  "template_spec = \<lparr>Resources = None, Params = [list_param],
     Steps = [step0\<lparr>Container_Name := ''build''\<rparr>], Volumes = [],
     StepTemplate = Some template_container\<rparr>"

definition merged_template_steps :: "Step list" where
  "merged_template_steps =
     [step0\<lparr>Container_Name := ''build'', Container_Image := ''ubuntu'',
            Args := [''$(params.nope)'']\<rparr>]"

definition two_violations_spec :: "unit TaskSpec" where
  "two_violations_spec = \<lparr>Resources = None, Params = [list_param],
     Steps = [two_violations_step], Volumes = [], StepTemplate = None\<rparr>"

definition no_steps_spec :: "unit TaskSpec" where
  "no_steps_spec = \<lparr>Resources = None, Params = [list_param], Steps = [], Volumes = [],
     StepTemplate = None\<rparr>"

definition no_resources :: "unit option \<Rightarrow> FieldError option" where
  "no_resources r = None"

section \<open>Properties of the TTL reconciler\<close>

subsection \<open>Time arithmetic and the finish time\<close>

lemma Time_Sub_nonpos: "Time_Sub a b \<le> 0 \<longleftrightarrow> a \<le> b"
  by (simp add: Time_Sub_def minDuration_def maxDuration_def)

lemma Time_Sub_pos: "b < a \<Longrightarrow> Time_Sub a b = min (a - b) maxDuration"
  by (simp add: Time_Sub_def minDuration_def maxDuration_def min_def)

lemma finishTime_loop_find:
  "finishTime_loop ns n cons =
     (case find terminal cons of
        None \<Rightarrow> Inl (ErrNoSucceededStatus ns n)
      | Some con \<Rightarrow> if Time_IsZero (LastTransitionTime con) then Inl (ErrNoFinishTime ns n)
                    else Inr (LastTransitionTime con))"
  by (induction cons) (simp_all add: terminal_def)

lemma terminal_iff:
  "terminal con \<longleftrightarrow>
     Type con = ''Succeeded'' \<and> (Status con = ConditionTrue \<or> Status con = ConditionFalse)"
  by (cases "Status con") (simp_all add: terminal_def ConditionSucceeded_def)

lemma guard_iff_spec:
  "(DeletionTimestamp tr = None \<and> taskRunCleanup tr) = cleanup_eligible_spec tr"
  by (auto simp: cleanup_eligible_spec_def taskRunCleanup_def IsDone_def
      HasPipelineRunOwnerReference_def terminal_iff [abs_def])

lemma getFinishAndExpireTime_guard:
  "\<not> taskRunCleanup tr \<Longrightarrow>
     getFinishAndExpireTime tr = Inl (ErrShouldNotBeCleanedUp (Namespace tr) (Name tr))"
  by (simp add: getFinishAndExpireTime_def)

lemma trTimeLeft_eligible:
  assumes "taskRunCleanup tr" "ExpirationSecondsTTL tr = Some d" "taskRunFinishTime tr = Inr f"
  shows "trTimeLeft tr t = Inr (Time_Sub (f + d) t)"
  using assms by (simp add: trTimeLeft_def getFinishAndExpireTime_def Time_UTC_def Time_Add_def)

lemma trTimeLeft_error:
  assumes "taskRunCleanup tr" "taskRunFinishTime tr = Inl e"
  shows "trTimeLeft tr t = Inl e"
  using assms by (simp add: trTimeLeft_def getFinishAndExpireTime_def)

subsection \<open>One TTL check\<close>

lemma processTrTTL_ineligible:
  "DeletionTimestamp tr \<noteq> None \<or> \<not> taskRunCleanup tr \<Longrightarrow>
     processTrTTL tc tr w = ((False, None), w)"
  by (simp add: processTrTTL_def)

lemma processTrTTL_eligible:
  assumes "DeletionTimestamp tr = None" "taskRunCleanup tr"
    "ExpirationSecondsTTL tr = Some d" "taskRunFinishTime tr = Inr f"
  shows "processTrTTL tc tr w =
     (if Time_Sub (f + d) (clock tc (reads w)) \<le> 0 then ((True, None), tick w)
      else ((False, None),
            emit (EnqueueAfter (key_of tr) (Time_Sub (f + d) (clock tc (reads w)))) (tick w)))"
  using assms by (simp add: processTrTTL_def clock_Now_def trTimeLeft_eligible tick_def)

lemma processTrTTL_error:
  assumes "DeletionTimestamp tr = None" "taskRunCleanup tr" "taskRunFinishTime tr = Inl e"
  shows "processTrTTL tc tr w = ((False, Some e), tick w)"
  using assms by (simp add: processTrTTL_def clock_Now_def trTimeLeft_error tick_def)

lemma processTrTTL_decide:
  assumes "DeletionTimestamp tr = None" "taskRunCleanup tr"
    "ExpirationSecondsTTL tr = Some d" "taskRunFinishTime tr = Inr f"
  shows "processTrTTL tc tr w =
     (if clock tc (reads w) < f + d
      then ((False, None),
            emit (EnqueueAfter (key_of tr) (min (f + d - clock tc (reads w)) maxDuration)) (tick w))
      else ((True, None), tick w))"
proof (cases "clock tc (reads w) < f + d")
  case True
  then have "\<not> Time_Sub (f + d) (clock tc (reads w)) \<le> 0"
    by (simp add: Time_Sub_nonpos)
  with True show ?thesis
    using assms by (simp add: processTrTTL_eligible Time_Sub_pos)
next
  case False
  then have "Time_Sub (f + d) (clock tc (reads w)) \<le> 0"
    by (simp add: Time_Sub_nonpos)
  with False show ?thesis
    using assms by (simp add: processTrTTL_eligible)
qed

lemma processTrTTL_expired_world:
  "processTrTTL tc tr w = ((True, e), w1) \<Longrightarrow> w1 = tick w \<and> e = None"
  by (auto simp: processTrTTL_def clock_Now_def tick_def split: if_splits sum.splits prod.splits)

lemma processTrTTL_trace:
  "trace (snd (processTrTTL tc tr w)) = trace w
   \<or> (\<exists>d. trace (snd (processTrTTL tc tr w)) = trace w @ [EnqueueAfter (key_of tr) d])"
  by (simp add: processTrTTL_def clock_Now_def emit_def split: sum.splits)

lemma processTrTTL_no_Delete:
  "Delete ns n opts \<in> set (trace (snd (processTrTTL tc tr w))) \<Longrightarrow>
     Delete ns n opts \<in> set (trace w)"
  using processTrTTL_trace [of tc tr w] by auto

subsection \<open>Processing a key\<close>

text \<open>
  \<open>processTaskRunExpired\<close> is the body of the spec's \<open>ProcessKey\<close> after the run has been
  looked up in the cache. Once the cached copy is believed expired, the rest of the function
  is the re-fetch and what follows it.
\<close>

lemma processTaskRunExpired_refetch:
  assumes "\<not> HasPipelineRunOwnerReference tr" "processTrTTL tc tr w = ((True, None), w1)"
  shows "processTaskRunExpired tc namespace name tr w =
     (case TaskRuns_Get tc namespace name of
        Inl e \<Rightarrow> (if e = ErrNotFound then None else Some e, emit (Get namespace name) w1)
      | Inr fresh \<Rightarrow>
          if HasPipelineRunOwnerReference fresh then (None, emit (Get namespace name) w1)
          else case processTrTTL tc fresh (emit (Get namespace name) w1) of
            ((expired, err), w3) \<Rightarrow>
              if err \<noteq> None then (err, w3)
              else if \<not> expired then (None, w3)
              else (TaskRuns_Delete tc (Namespace fresh) (Name fresh)
                      \<lparr>PropagationPolicy = Some DeletePropagationForeground,
                       Preconditions_UID = Some (UID fresh)\<rparr>,
                    emit (Delete (Namespace fresh) (Name fresh)
                      \<lparr>PropagationPolicy = Some DeletePropagationForeground,
                       Preconditions_UID = Some (UID fresh)\<rparr>) w3))"
  using assms
  by (simp add: processTaskRunExpired_def IsNotFound_def Let_def split: sum.splits prod.splits)

subsection \<open>Facts about the example runs\<close>

lemmas example_defs = example_run_def extended_run_def owned_run_def long_ttl_run_def
  untimed_run_def no_ttl_run_def reconciler_at_def world0_def
  second_def T0_def

lemmas model_defs = processTaskRunExpired_def processTrTTL_def trTimeLeft_def
  getFinishAndExpireTime_def taskRunFinishTime_def taskRunCleanup_def IsDone_def terminal_def
  HasPipelineRunOwnerReference_def ConditionSucceeded_def clock_Now_def emit_def key_of_def
  Time_Sub_def Time_Add_def Time_UTC_def Time_IsZero_def minDuration_def maxDuration_def
  IsNotFound_def

lemma example_run_facts:
  "DeletionTimestamp example_run = None" "taskRunCleanup example_run"
  "ExpirationSecondsTTL example_run = Some (60 * second)"
  "taskRunFinishTime example_run = Inr T0"
  "\<not> HasPipelineRunOwnerReference example_run"
  by (simp_all add: example_defs model_defs)

lemma extended_run_facts:
  "DeletionTimestamp extended_run = None" "taskRunCleanup extended_run"
  "ExpirationSecondsTTL extended_run = Some (120 * second)"
  "taskRunFinishTime extended_run = Inr T0"
  "\<not> HasPipelineRunOwnerReference extended_run"
  by (simp_all add: example_defs model_defs)

subsection \<open>The claims about the reconciler\<close>

text \<open>
  Claim C1, as amended. The claim says that when the re-check on the freshly fetched copy
  finds the run no longer eligible or not yet expired, no \<open>EnqueueAfter\<close> call occurs.
  The re-check is a second call of \<open>processTrTTL\<close>, the same function that checked the
  cached copy, and that function schedules the deferred requeue itself whenever the run is
  eligible and not yet expired. What holds: if the fresh copy is no longer eligible (it has
  an owner, is being deleted, or fails the cleanup predicate), processing stops after the
  \<open>Get\<close> with no further call; if the fresh copy is eligible and not yet expired,
  exactly one \<open>EnqueueAfter\<close> for the fresh copy's remaining time follows the \<open>Get\<close>, no
  delete is issued and no error is returned.
\<close>

theorem recheck_on_fresh_copy:
  assumes "\<not> HasPipelineRunOwnerReference tr" "processTrTTL tc tr w = ((True, None), w1)"
    "TaskRuns_Get tc namespace name = Inr fresh"
  shows "(HasPipelineRunOwnerReference fresh \<or> DeletionTimestamp fresh \<noteq> None
            \<or> \<not> taskRunCleanup fresh \<longrightarrow>
          processTaskRunExpired tc namespace name tr w = (None, emit (Get namespace name) w1))
       \<and> (\<not> HasPipelineRunOwnerReference fresh \<and> DeletionTimestamp fresh = None
            \<and> taskRunCleanup fresh \<and> ExpirationSecondsTTL fresh = Some d
            \<and> taskRunFinishTime fresh = Inr f \<and> clock tc (reads w1) < f + d \<longrightarrow>
          processTaskRunExpired tc namespace name tr w =
            (None, w1\<lparr>reads := Suc (reads w1),
                      trace := trace w1 @ [Get namespace name,
                        EnqueueAfter (Namespace fresh, Name fresh)
                          (min (f + d - clock tc (reads w1)) maxDuration)]\<rparr>))"
proof (intro conjI impI)
  assume "HasPipelineRunOwnerReference fresh \<or> DeletionTimestamp fresh \<noteq> None
            \<or> \<not> taskRunCleanup fresh"
  then show "processTaskRunExpired tc namespace name tr w = (None, emit (Get namespace name) w1)"
    using assms by (auto simp: processTaskRunExpired_refetch processTrTTL_ineligible)
next
  assume h: "\<not> HasPipelineRunOwnerReference fresh \<and> DeletionTimestamp fresh = None
            \<and> taskRunCleanup fresh \<and> ExpirationSecondsTTL fresh = Some d
            \<and> taskRunFinishTime fresh = Inr f \<and> clock tc (reads w1) < f + d"
  then have "processTrTTL tc fresh (emit (Get namespace name) w1) =
      ((False, None), w1\<lparr>reads := Suc (reads w1),
                      trace := trace w1 @ [Get namespace name,
                        EnqueueAfter (Namespace fresh, Name fresh)
                          (min (f + d - clock tc (reads w1)) maxDuration)]\<rparr>)"
    by (simp add: processTrTTL_decide tick_def emit_def key_of_def)
  then show "processTaskRunExpired tc namespace name tr w =
            (None, w1\<lparr>reads := Suc (reads w1),
                      trace := trace w1 @ [Get namespace name,
                        EnqueueAfter (Namespace fresh, Name fresh)
                          (min (f + d - clock tc (reads w1)) maxDuration)]\<rparr>)"
    using assms h by (simp add: processTaskRunExpired_refetch)
qed

text \<open>
  The theorem at the example run, 61 seconds after it finished: with a fresh copy that has
  acquired an owner, only the \<open>Get\<close> happens; with a fresh copy whose TTL was extended to
  120 seconds, the \<open>Get\<close> is followed by a requeue for the remaining 59 seconds.
\<close>

theorem recheck_on_fresh_copy_witness:
  "processTaskRunExpired (reconciler_at (T0 + 61 * second) (Inr owned_run))
       ''default'' ''run'' example_run world0
     = (None, \<lparr>reads = 1, trace = [Get ''default'' ''run'']\<rparr>)
   \<and> processTaskRunExpired (reconciler_at (T0 + 61 * second) (Inr extended_run))
       ''default'' ''run'' example_run world0
     = (None, \<lparr>reads = 2, trace = [Get ''default'' ''run'',
                EnqueueAfter (''default'', ''run'') (59 * second)]\<rparr>)"
proof -
  let ?ow = "reconciler_at (T0 + 61 * second) (Inr owned_run)"
  let ?ex = "reconciler_at (T0 + 61 * second) (Inr extended_run)"
  let ?w1 = "\<lparr>reads = 1, trace = []\<rparr>"
  have o: "\<not> HasPipelineRunOwnerReference example_run"
    by (rule example_run_facts)
  have p1: "processTrTTL ?ow example_run world0 = ((True, None), ?w1)"
    by (simp add: example_defs model_defs)
  have p2: "processTrTTL ?ex example_run world0 = ((True, None), ?w1)"
    by (simp add: example_defs model_defs)
  have g1: "TaskRuns_Get ?ow ''default'' ''run'' = Inr owned_run"
    by (simp add: reconciler_at_def)
  have g2: "TaskRuns_Get ?ex ''default'' ''run'' = Inr extended_run"
    by (simp add: reconciler_at_def)
  have h1: "HasPipelineRunOwnerReference owned_run"
    by (simp add: example_defs model_defs)
  have h2: "clock ?ex (reads ?w1) < T0 + 120 * second"
    by (simp add: example_defs)
  have a: "processTaskRunExpired ?ow ''default'' ''run'' example_run world0
      = (None, \<lparr>reads = 1, trace = [Get ''default'' ''run'']\<rparr>)"
    using recheck_on_fresh_copy [OF o p1 g1, of 0 0] h1 by (simp add: emit_def)
  have b: "processTaskRunExpired ?ex ''default'' ''run'' example_run world0
      = (None, \<lparr>reads = 2, trace = [Get ''default'' ''run'',
                EnqueueAfter (''default'', ''run'') (59 * second)]\<rparr>)"
    using recheck_on_fresh_copy [OF o p2 g2, of "120 * second" T0] h2 extended_run_facts
    by (simp add: example_defs maxDuration_def)
  from a b show ?thesis by simp
qed

text \<open>
  The claim as stated fails at that second input: the cached copy is believed expired, the
  re-fetch is performed, the re-check finds the fresh copy not yet expired, and an
  \<open>EnqueueAfter\<close> call is made.
\<close>

theorem recheck_requeues_counterexample:
  "processTrTTL (reconciler_at (T0 + 61 * second) (Inr extended_run)) example_run world0 =
      ((True, None), \<lparr>reads = 1, trace = []\<rparr>)
   \<and> processTrTTL (reconciler_at (T0 + 61 * second) (Inr extended_run)) extended_run
        \<lparr>reads = 1, trace = [Get ''default'' ''run'']\<rparr> =
      ((False, None), \<lparr>reads = 2, trace = [Get ''default'' ''run'',
                EnqueueAfter (''default'', ''run'') (59 * second)]\<rparr>)
   \<and> processTaskRunExpired (reconciler_at (T0 + 61 * second) (Inr extended_run))
        ''default'' ''run'' example_run world0 =
      (None, \<lparr>reads = 2, trace = [Get ''default'' ''run'',
                EnqueueAfter (''default'', ''run'') (59 * second)]\<rparr>)"
  by (simp add: example_defs model_defs)

text \<open>
  Claim C2. The guard that every entry point applies before treating a run as a candidate
  for cleanup, \<open>tr.DeletionTimestamp == nil && taskRunCleanup(tr)\<close>, holds exactly when
  the run's TTL is set, some \<open>Succeeded\<close> condition has status true or false, the run has
  no owner reference and its deletion timestamp is unset. \<open>AddTaskRun\<close> and
  \<open>UpdateTaskRun\<close> enqueue exactly the runs that satisfy it and \<open>processTrTTL\<close> does
  nothing for the others. In particular a run without a TTL and a run with an owner
  reference are never eligible.
\<close>

theorem cleanup_eligibility:
  "((DeletionTimestamp tr = None \<and> taskRunCleanup tr) = cleanup_eligible_spec tr)
   \<and> AddTaskRun tc tr w =
       (if cleanup_eligible_spec tr then emit (Enqueue (Namespace tr, Name tr)) w else w)
   \<and> UpdateTaskRun tc old tr w =
       (if cleanup_eligible_spec tr then emit (Enqueue (Namespace tr, Name tr)) w else w)
   \<and> (\<not> cleanup_eligible_spec tr \<longrightarrow> processTrTTL tc tr w = ((False, None), w))
   \<and> (ExpirationSecondsTTL tr = None \<longrightarrow> \<not> (DeletionTimestamp tr = None \<and> taskRunCleanup tr))
   \<and> (OwnerReference tr \<noteq> None \<longrightarrow> \<not> (DeletionTimestamp tr = None \<and> taskRunCleanup tr))"
proof -
  have g: "(DeletionTimestamp tr = None \<and> taskRunCleanup tr) = cleanup_eligible_spec tr"
    by (rule guard_iff_spec)
  have a: "AddTaskRun tc tr w =
       (if cleanup_eligible_spec tr then emit (Enqueue (Namespace tr, Name tr)) w else w)"
    unfolding AddTaskRun_def g by (simp add: key_of_def)
  have u: "UpdateTaskRun tc old tr w =
       (if cleanup_eligible_spec tr then emit (Enqueue (Namespace tr, Name tr)) w else w)"
    unfolding UpdateTaskRun_def g by (simp add: key_of_def)
  have p: "\<not> cleanup_eligible_spec tr \<longrightarrow> processTrTTL tc tr w = ((False, None), w)"
    using g processTrTTL_ineligible [of tr tc w] by blast
  have t: "ExpirationSecondsTTL tr = None \<longrightarrow> \<not> (DeletionTimestamp tr = None \<and> taskRunCleanup tr)"
    by (simp add: taskRunCleanup_def)
  have ow: "OwnerReference tr \<noteq> None \<longrightarrow> \<not> (DeletionTimestamp tr = None \<and> taskRunCleanup tr)"
    by (simp add: taskRunCleanup_def HasPipelineRunOwnerReference_def)
  from g a u p t ow show ?thesis by blast
qed

theorem cleanup_eligibility_witness:
  "cleanup_eligible_spec example_run
   \<and> AddTaskRun (reconciler_at T0 (Inl ErrNotFound)) example_run world0 =
       \<lparr>reads = 0, trace = [Enqueue (''default'', ''run'')]\<rparr>
   \<and> \<not> cleanup_eligible_spec no_ttl_run
   \<and> processTrTTL (reconciler_at T0 (Inl ErrNotFound)) no_ttl_run world0 = ((False, None), world0)
   \<and> ExpirationSecondsTTL no_ttl_run = None \<and> \<not> taskRunCleanup no_ttl_run
   \<and> OwnerReference owned_run \<noteq> None \<and> \<not> taskRunCleanup owned_run"
  using cleanup_eligibility [of example_run "reconciler_at T0 (Inl ErrNotFound)" world0 example_run]
    cleanup_eligibility [of no_ttl_run "reconciler_at T0 (Inl ErrNotFound)" world0 no_ttl_run]
    cleanup_eligibility [of owned_run "reconciler_at T0 (Inl ErrNotFound)" world0 owned_run]
  by (simp add: cleanup_eligible_spec_def example_defs emit_def)

text \<open>
  Claim C3, as amended. For an eligible run with TTL \<open>d\<close> and finish time \<open>f\<close>, the TTL
  check made when the clock reads \<open>t\<close> behaves as follows. If \<open>t < f + d\<close> it reports
  not-expired and schedules exactly one deferred requeue, for \<open>f + d - t\<close> when that
  difference fits in a Duration and for the largest Duration otherwise (\<open>Time.Sub\<close>
  saturates). If \<open>t \<ge> f + d\<close> it reports expired and schedules nothing.
\<close>

theorem ttl_check_remaining:
  assumes "DeletionTimestamp tr = None" "taskRunCleanup tr"
    "ExpirationSecondsTTL tr = Some d" "taskRunFinishTime tr = Inr f"
    "clock tc (reads w) = t"
  shows "processTrTTL tc tr w =
     (if t < f + d
      then ((False, None),
            w\<lparr>reads := Suc (reads w),
              trace := trace w @
                [EnqueueAfter (Namespace tr, Name tr) (min (f + d - t) maxDuration)]\<rparr>)
      else ((True, None), w\<lparr>reads := Suc (reads w)\<rparr>))"
  using assms
  by (simp add: processTrTTL_decide tick_def emit_def key_of_def)

text \<open>
  The spec's scenario: TTL 60 seconds, processed 30 seconds after the finish time, the
  requeue is for 30 seconds; processed 61 seconds after it, the run is reported expired.
\<close>

theorem ttl_check_remaining_witness:
  "processTrTTL (reconciler_at (T0 + 30 * second) (Inl ErrNotFound)) example_run world0 =
     ((False, None), \<lparr>reads = 1, trace = [EnqueueAfter (''default'', ''run'') (30 * second)]\<rparr>)
   \<and> processTrTTL (reconciler_at (T0 + 61 * second) (Inl ErrNotFound)) example_run world0 =
     ((True, None), \<lparr>reads = 1, trace = []\<rparr>)"
proof -
  let ?a = "reconciler_at (T0 + 30 * second) (Inl ErrNotFound)"
  let ?b = "reconciler_at (T0 + 61 * second) (Inl ErrNotFound)"
  have ca: "clock ?a (reads world0) = T0 + 30 * second"
    by (simp add: reconciler_at_def)
  have cb: "clock ?b (reads world0) = T0 + 61 * second"
    by (simp add: reconciler_at_def)
  from ttl_check_remaining [OF example_run_facts(1-4) ca]
    ttl_check_remaining [OF example_run_facts(1-4) cb]
  show ?thesis
    by (simp add: world0_def example_run_def second_def maxDuration_def)
qed

text \<open>
  The claim as stated, with the requeue for exactly \<open>f + d - t\<close>, fails for a run whose
  TTL is the largest Duration and whose finish time lies one second ahead of the clock:
  \<open>t < f + d\<close> holds, and the requeue is for the largest Duration, which is one second
  less than \<open>f + d - t\<close>.
\<close>

theorem ttl_remaining_saturates_counterexample:
  "DeletionTimestamp long_ttl_run = None \<and> taskRunCleanup long_ttl_run
   \<and> ExpirationSecondsTTL long_ttl_run = Some maxDuration
   \<and> taskRunFinishTime long_ttl_run = Inr T0
   \<and> T0 - second < T0 + maxDuration
   \<and> processTrTTL (reconciler_at (T0 - second) (Inl ErrNotFound)) long_ttl_run world0 =
        ((False, None), \<lparr>reads = 1, trace = [EnqueueAfter (''default'', ''run'') maxDuration]\<rparr>)
   \<and> maxDuration \<noteq> T0 + maxDuration - (T0 - second)"
  by (simp add: example_defs model_defs)

text \<open>
  Claim C6. Every delete call that processing a key adds to the trace is addressed to the
  namespace and name of the copy returned by the re-fetch, asks for foreground
  propagation, and carries that copy's UID as its precondition; the value returned to the
  caller is the result of that delete call.
\<close>

theorem delete_call_shape:
  assumes "Delete ns n opts \<in> set (trace (snd (processTaskRunExpired tc namespace name tr w)))"
    and "Delete ns n opts \<notin> set (trace w)"
  shows "\<exists>fresh. TaskRuns_Get tc namespace name = Inr fresh
           \<and> ns = Namespace fresh \<and> n = Name fresh
           \<and> PropagationPolicy opts = Some DeletePropagationForeground
           \<and> Preconditions_UID opts = Some (UID fresh)
           \<and> fst (processTaskRunExpired tc namespace name tr w) = TaskRuns_Delete tc ns n opts"
proof (cases "HasPipelineRunOwnerReference tr")
  case True
  with assms show ?thesis by (simp add: processTaskRunExpired_def)
next
  case False
  obtain expired err w1 where p1: "processTrTTL tc tr w = ((expired, err), w1)"
    by (metis surj_pair)
  have nd1: "Delete ns n opts \<notin> set (trace w1)"
    using processTrTTL_no_Delete [of ns n opts tc tr w] p1 assms(2) by auto
  show ?thesis
  proof (cases "err = None \<and> expired")
    case False
    with assms(1) nd1 p1 \<open>\<not> HasPipelineRunOwnerReference tr\<close> show ?thesis
      by (auto simp: processTaskRunExpired_def split: if_splits)
  next
    case True
    then have p1': "processTrTTL tc tr w = ((True, None), w1)" using p1 by simp
    let ?w2 = "emit (Get namespace name) w1"
    have nd2: "Delete ns n opts \<notin> set (trace ?w2)"
      using nd1 by (simp add: emit_def)
    note r = processTaskRunExpired_refetch
      [OF \<open>\<not> HasPipelineRunOwnerReference tr\<close> p1', of namespace name]
    show ?thesis
    proof (cases "TaskRuns_Get tc namespace name")
      case (Inl e)
      with assms(1) nd2 r show ?thesis by simp
    next
      case (Inr fresh)
      obtain expired' err' w3 where p2: "processTrTTL tc fresh ?w2 = ((expired', err'), w3)"
        by (metis surj_pair)
      have nd3: "Delete ns n opts \<notin> set (trace w3)"
        using processTrTTL_no_Delete [of ns n opts tc fresh ?w2] p2 nd2 by auto
      from assms(1) nd2 nd3 r Inr p2 show ?thesis
        by (auto simp: emit_def split: if_splits)
    qed
  qed
qed

text \<open>
  The example run processed 61 seconds after it finished, with an unchanged fresh copy: the
  trace is the \<open>Get\<close> and one delete of \<open>default/run\<close> with foreground propagation and
  precondition \<open>uid-1\<close>.
\<close>

theorem delete_call_shape_witness:
  "processTaskRunExpired (reconciler_at (T0 + 61 * second) (Inr example_run))
       ''default'' ''run'' example_run world0 =
     (None, \<lparr>reads = 2, trace = [Get ''default'' ''run'',
                Delete ''default'' ''run'' foreground_uid1]\<rparr>)
   \<and> TaskRuns_Get (reconciler_at (T0 + 61 * second) (Inr example_run)) ''default'' ''run''
       = Inr example_run
   \<and> Namespace example_run = ''default'' \<and> Name example_run = ''run''
   \<and> UID example_run = ''uid-1''"
proof -
  let ?tc = "reconciler_at (T0 + 61 * second) (Inr example_run)"
  have run: "processTaskRunExpired ?tc ''default'' ''run'' example_run world0 =
     (None, \<lparr>reads = 2, trace = [Get ''default'' ''run'',
                Delete ''default'' ''run'' foreground_uid1]\<rparr>)"
    by (simp add: example_defs model_defs foreground_uid1_def)
  have h1: "Delete ''default'' ''run'' foreground_uid1
      \<in> set (trace (snd (processTaskRunExpired ?tc ''default'' ''run'' example_run world0)))"
    by (simp add: run)
  have h2: "Delete ''default'' ''run'' foreground_uid1 \<notin> set (trace world0)"
    by (simp add: world0_def)
  from delete_call_shape [OF h1 h2] run show ?thesis
    by (auto simp: reconciler_at_def foreground_uid1_def)
qed

text \<open>
  Claim C7. Suppose the cached copy has no owner and is believed expired, so that the
  re-fetch is made. If the re-fetch answers not-found, processing returns no error and its
  only call is the \<open>Get\<close> (no delete, no requeue). If it fails with any other error, that
  error is returned. Processing the key a second time on the world the first call left,
  with the store still answering not-found, again returns no error and adds only a second
  \<open>Get\<close>.
\<close>

theorem refetch_not_found:
  assumes "\<not> HasPipelineRunOwnerReference tr"
    and "processTrTTL tc tr w = ((True, None), w1)"
  shows "(TaskRuns_Get tc namespace name = Inl ErrNotFound \<longrightarrow>
            processTaskRunExpired tc namespace name tr w
              = (None, w1\<lparr>trace := trace w @ [Get namespace name]\<rparr>))
       \<and> (\<forall>e. TaskRuns_Get tc namespace name = Inl e \<and> e \<noteq> ErrNotFound \<longrightarrow>
            processTaskRunExpired tc namespace name tr w
              = (Some e, w1\<lparr>trace := trace w @ [Get namespace name]\<rparr>))
       \<and> (TaskRuns_Get tc namespace name = Inl ErrNotFound
            \<and> processTrTTL tc tr (w1\<lparr>trace := trace w @ [Get namespace name]\<rparr>)
                = ((True, None), w2) \<longrightarrow>
            processTaskRunExpired tc namespace name tr
                (snd (processTaskRunExpired tc namespace name tr w))
              = (None, w2\<lparr>trace := trace w @ [Get namespace name, Get namespace name]\<rparr>))"
proof -
  have tr1: "trace w1 = trace w"
    using processTrTTL_expired_world [OF assms(2)] by (simp add: tick_def)
  then have e1: "emit (Get namespace name) w1 = w1\<lparr>trace := trace w @ [Get namespace name]\<rparr>"
    by (simp add: emit_def)
  note r = processTaskRunExpired_refetch [OF assms, of namespace name, unfolded e1]
  have a: "TaskRuns_Get tc namespace name = Inl ErrNotFound \<longrightarrow>
            processTaskRunExpired tc namespace name tr w
              = (None, w1\<lparr>trace := trace w @ [Get namespace name]\<rparr>)"
    using r by simp
  have b: "\<forall>e. TaskRuns_Get tc namespace name = Inl e \<and> e \<noteq> ErrNotFound \<longrightarrow>
            processTaskRunExpired tc namespace name tr w
              = (Some e, w1\<lparr>trace := trace w @ [Get namespace name]\<rparr>)"
    using r by simp
  have c: "TaskRuns_Get tc namespace name = Inl ErrNotFound
            \<and> processTrTTL tc tr (w1\<lparr>trace := trace w @ [Get namespace name]\<rparr>)
                = ((True, None), w2) \<longrightarrow>
            processTaskRunExpired tc namespace name tr
                (snd (processTaskRunExpired tc namespace name tr w))
              = (None, w2\<lparr>trace := trace w @ [Get namespace name, Get namespace name]\<rparr>)"
  proof
    assume h: "TaskRuns_Get tc namespace name = Inl ErrNotFound
            \<and> processTrTTL tc tr (w1\<lparr>trace := trace w @ [Get namespace name]\<rparr>)
                = ((True, None), w2)"
    let ?wa = "w1\<lparr>trace := trace w @ [Get namespace name]\<rparr>"
    have first: "snd (processTaskRunExpired tc namespace name tr w) = ?wa"
      using a h by simp
    have tr2: "trace w2 = trace w @ [Get namespace name]"
      using processTrTTL_expired_world [of tc tr ?wa None w2] h by (simp add: tick_def)
    have "processTaskRunExpired tc namespace name tr ?wa = (None, emit (Get namespace name) w2)"
      using processTaskRunExpired_refetch [OF assms(1), of tc ?wa w2 namespace name] h by simp
    then show "processTaskRunExpired tc namespace name tr
                (snd (processTaskRunExpired tc namespace name tr w))
              = (None, w2\<lparr>trace := trace w @ [Get namespace name, Get namespace name]\<rparr>)"
      using first tr2 by (simp add: emit_def)
  qed
  from a b c show ?thesis by blast
qed

theorem refetch_not_found_witness:
  "processTaskRunExpired (reconciler_at (T0 + 61 * second) (Inl ErrNotFound))
       ''default'' ''run'' example_run world0
     = (None, \<lparr>reads = 1, trace = [Get ''default'' ''run'']\<rparr>)
   \<and> processTaskRunExpired (reconciler_at (T0 + 61 * second) (Inl ErrNotFound))
       ''default'' ''run'' example_run \<lparr>reads = 1, trace = [Get ''default'' ''run'']\<rparr>
     = (None, \<lparr>reads = 2, trace = [Get ''default'' ''run'', Get ''default'' ''run'']\<rparr>)
   \<and> processTaskRunExpired (reconciler_at (T0 + 61 * second) (Inl (ErrStore ''timeout'')))
       ''default'' ''run'' example_run world0
     = (Some (ErrStore ''timeout''), \<lparr>reads = 1, trace = [Get ''default'' ''run'']\<rparr>)"
proof -
  let ?nf = "reconciler_at (T0 + 61 * second) (Inl ErrNotFound)"
  let ?to = "reconciler_at (T0 + 61 * second) (Inl (ErrStore ''timeout''))"
  let ?w1 = "\<lparr>reads = 1, trace = []\<rparr>"
  let ?wa = "\<lparr>reads = 1, trace = [Get ''default'' ''run'']\<rparr>"
  let ?w2 = "\<lparr>reads = 2, trace = [Get ''default'' ''run'']\<rparr>"
  have o: "\<not> HasPipelineRunOwnerReference example_run"
    by (rule example_run_facts)
  have p1: "processTrTTL ?nf example_run world0 = ((True, None), ?w1)"
    by (simp add: example_defs model_defs)
  have p2: "processTrTTL ?nf example_run ?wa = ((True, None), ?w2)"
    by (simp add: example_defs model_defs)
  have p3: "processTrTTL ?to example_run world0 = ((True, None), ?w1)"
    by (simp add: example_defs model_defs)
  have g1: "TaskRuns_Get ?nf ''default'' ''run'' = Inl ErrNotFound"
    by (simp add: reconciler_at_def)
  have g3: "TaskRuns_Get ?to ''default'' ''run'' = Inl (ErrStore ''timeout'')"
    by (simp add: reconciler_at_def)
  note n = refetch_not_found [OF o p1, of "''default''" "''run''" ?w2]
  note t = refetch_not_found [OF o p3, of "''default''" "''run''" ?w2]
  have a: "processTaskRunExpired ?nf ''default'' ''run'' example_run world0 = (None, ?wa)"
    using n g1 by (simp add: world0_def)
  have p2': "processTrTTL ?nf example_run
        (?w1\<lparr>trace := trace world0 @ [Get ''default'' ''run'']\<rparr>) = ((True, None), ?w2)"
    using p2 by (simp add: world0_def)
  note k = n [THEN conjunct2, THEN conjunct2, THEN mp, OF conjI [OF g1 p2'], unfolded a snd_conv]
  have b: "processTaskRunExpired ?nf ''default'' ''run'' example_run ?wa
        = (None, \<lparr>reads = 2, trace = [Get ''default'' ''run'', Get ''default'' ''run'']\<rparr>)"
    using k by (simp add: world0_def)
  have c: "processTaskRunExpired ?to ''default'' ''run'' example_run world0
        = (Some (ErrStore ''timeout''), ?wa)"
    using t g3 by (simp add: world0_def)
  from a b c show ?thesis by simp
qed

text \<open>
  Claim C9. Take a cleanup-eligible run: its deletion timestamp is unset and
  \<open>taskRunCleanup\<close> holds, the guard that \<open>guard_iff_spec\<close> identifies with the spec's
  eligibility predicate. If it has no terminal condition, or its first terminal condition
  has no last-transition time, then processing its key returns an error, the one
  \<open>taskRunFinishTime\<close> reports; the clock has been read once, and no call on the queue or
  the store has been made, so nothing is deleted.
\<close>

theorem missing_finish_time_surfaces:
  assumes "DeletionTimestamp tr = None" and "taskRunCleanup tr"
    and "case find terminal (Conditions tr) of
           None \<Rightarrow> True
         | Some con \<Rightarrow> Time_IsZero (LastTransitionTime con)"
  shows "\<exists>e. taskRunFinishTime tr = Inl e
           \<and> (e = ErrNoFinishTime (Namespace tr) (Name tr)
                \<or> e = ErrNoSucceededStatus (Namespace tr) (Name tr))
           \<and> processTaskRunExpired tc namespace name tr w
               = (Some e, w\<lparr>reads := Suc (reads w)\<rparr>)"
proof -
  from assms(3) obtain e where e: "taskRunFinishTime tr = Inl e"
    and k: "e = ErrNoFinishTime (Namespace tr) (Name tr)
                \<or> e = ErrNoSucceededStatus (Namespace tr) (Name tr)"
    by (auto simp: taskRunFinishTime_def finishTime_loop_find split: option.splits)
  have o: "\<not> HasPipelineRunOwnerReference tr"
    using assms(2) by (simp add: taskRunCleanup_def)
  have "processTaskRunExpired tc namespace name tr w = (Some e, w\<lparr>reads := Suc (reads w)\<rparr>)"
    using o processTrTTL_error [OF assms(1,2) e, of tc w]
    by (simp add: processTaskRunExpired_def tick_def)
  with e k show ?thesis by blast
qed

theorem missing_finish_time_surfaces_witness:
  "processTaskRunExpired (reconciler_at (T0 + 61 * second) (Inr untimed_run))
       ''default'' ''run'' untimed_run world0
     = (Some (ErrNoFinishTime ''default'' ''run''), \<lparr>reads = 1, trace = []\<rparr>)"
proof -
  have d: "DeletionTimestamp untimed_run = None"
    by (simp add: example_defs)
  have c: "taskRunCleanup untimed_run"
    by (simp add: example_defs model_defs)
  have z: "case find terminal (Conditions untimed_run) of
           None \<Rightarrow> True
         | Some con \<Rightarrow> Time_IsZero (LastTransitionTime con)"
    by (simp add: example_defs model_defs)
  have f: "taskRunFinishTime untimed_run = Inl (ErrNoFinishTime ''default'' ''run'')"
    by (simp add: example_defs model_defs)
  from missing_finish_time_surfaces [OF d c z, of "reconciler_at (T0 + 61 * second) (Inr untimed_run)"
      "''default''" "''run''" world0] f
  show ?thesis by (auto simp: world0_def)
qed

text \<open>
  Claim C10. Whatever the run, the clock and the world, the error that \<open>processTrTTL\<close>
  returns is never the "should not be cleaned up" error of \<open>getFinishAndExpireTime\<close>:
  \<open>processTrTTL\<close> reaches \<open>trTimeLeft\<close> only after its own guard has established
  \<open>taskRunCleanup\<close>, the predicate \<open>getFinishAndExpireTime\<close> tests again.
\<close>

theorem should_not_be_cleaned_up_unreachable:
  "snd (fst (processTrTTL tc tr w)) \<noteq> Some (ErrShouldNotBeCleanedUp ns n)"
proof (cases "DeletionTimestamp tr \<noteq> None \<or> \<not> taskRunCleanup tr")
  case True
  then show ?thesis by (simp add: processTrTTL_ineligible)
next
  case False
  then have "getFinishAndExpireTime tr \<noteq> Inl (ErrShouldNotBeCleanedUp ns n)"
    by (auto simp: getFinishAndExpireTime_def taskRunFinishTime_def finishTime_loop_find
        Let_def split: sum.splits option.splits if_splits)
  then have "trTimeLeft tr t \<noteq> Inl (ErrShouldNotBeCleanedUp ns n)" for t
    by (auto simp: trTimeLeft_def split: sum.splits)
  with False show ?thesis
    by (auto simp: processTrTTL_def clock_Now_def split: sum.splits)
qed

text \<open>
  At a run outside the guard the error is the one \<open>getFinishAndExpireTime\<close> gives when
  called directly, and still not what \<open>processTrTTL\<close> returns.
\<close>

theorem should_not_be_cleaned_up_unreachable_witness:
  "getFinishAndExpireTime no_ttl_run = Inl (ErrShouldNotBeCleanedUp ''default'' ''run'')
   \<and> snd (fst (processTrTTL (reconciler_at T0 (Inl ErrNotFound)) no_ttl_run world0))
       \<noteq> Some (ErrShouldNotBeCleanedUp ''default'' ''run'')"
  using should_not_be_cleaned_up_unreachable
    [of "reconciler_at T0 (Inl ErrNotFound)" no_ttl_run world0 "''default''" "''run''"]
  by (simp add: example_defs model_defs)

section \<open>Properties of the validator\<close>

subsection \<open>First-error loops\<close>

lemma orElse_simps [simp]:
  "orElse None r = r" "orElse (Some e) r = Some e" "orElse r None = r"
  by (simp_all add: orElse_def split: option.splits)

lemma firstErr_append: "firstErr f (xs @ ys) = orElse (firstErr f xs) (firstErr f ys)"
  by (induction xs) (simp_all split: option.splits)

lemma firstErr_map: "firstErr f (map g xs) = firstErr (\<lambda>x. f (g x)) xs"
  by (induction xs) (simp_all split: option.splits)

lemma firstErr_concat: "firstErr f (concat xss) = firstErr (firstErr f) xss"
  by (induction xss) (simp_all add: firstErr_append orElse_def split: option.splits)

lemma firstErr_Some_iff: "firstErr f xs \<noteq> None \<longleftrightarrow> (\<exists>x \<in> set xs. f x \<noteq> None)"
  by (induction xs) (auto split: option.splits)

lemma firstErr_Cons: "firstErr f (x # xs) = orElse (f x) (firstErr f xs)"
  by (simp add: orElse_def)

lemma firstErr_None_iff: "firstErr f xs = None \<longleftrightarrow> (\<forall>x \<in> set xs. f x = None)"
  by (induction xs) (auto split: option.splits)

lemma orElse_None_iff: "orElse a b = None \<longleftrightarrow> a = None \<and> b = None"
  by (cases a) simp_all






subsection \<open>The two walks of the analysis\<close>

text \<open>
  Each of the two loops of \<open>validateParameterVariables\<close> visits the fields of all steps in
  the order of \<open>stepFields\<close> and returns the first error of its own check.
\<close>

lemma validateVariables_step_fields:
  "validateVariables_step step ''params'' vars = firstErr (undeclaredIn vars) (stepFields step)"
  unfolding validateVariables_step_def stepFields_def
  by (simp add: firstErr_append firstErr_map firstErr_concat firstErr_Cons undeclaredIn_def
      case_prod_unfold del: firstErr.simps(2))

lemma validateArrayUsage_step_fields:
  "validateArrayUsage_step step ''params'' vars = firstErr (arrayMisuseIn vars) (stepFields step)"
  unfolding validateArrayUsage_step_def stepFields_def
  by (simp add: firstErr_append firstErr_map firstErr_concat firstErr_Cons arrayMisuseIn_def
      case_prod_unfold del: firstErr.simps(2))

lemma validateVariables_fields:
  "validateVariables steps ''params'' vars =
     firstErr (undeclaredIn vars) (concat (map stepFields steps))"
  by (simp add: validateVariables_def validateVariables_step_fields firstErr_concat firstErr_map)

lemma validateArrayUsage_fields:
  "validateArrayUsage steps ''params'' vars =
     firstErr (arrayMisuseIn vars) (concat (map stepFields steps))"
  by (simp add: validateArrayUsage_def validateArrayUsage_step_fields firstErr_concat firstErr_map)

lemma validateParameterVariables_twoPass:
  "validateParameterVariables steps params = firstViolation_twoPass steps params"
  unfolding validateParameterVariables_def firstViolation_twoPass_def
    validateVariables_fields validateArrayUsage_fields
  by (simp add: orElse_def)

lemma onePass_None_iff:
  "firstViolation_onePass steps params = None \<longleftrightarrow> firstViolation_twoPass steps params = None"
  by (simp add: firstViolation_onePass_def firstViolation_twoPass_def firstErr_None_iff
      orElse_None_iff violationIn_def ball_conj_distrib)

subsection \<open>The scanner on a placeholder\<close>
















subsection \<open>Fields of a step\<close>











subsection \<open>White space around a script\<close>

text \<open>
  A script with a no-break space before its interpreter directive and an em-quad and a line
  feed after it is trimmed to the directive, and passes the shebang check.
\<close>

lemma TrimSpace_unicode:
  "TrimSpace ([CHR 0xC2, CHR 0xA0] @ ''#!/bin/sh'' @ [CHR 0xE2, CHR 0x80, CHR 0x81, CHR 0x0A])
     = ''#!/bin/sh''"
  by code_simp

lemma validateSteps_unicode_script:
  "validateSteps [step0\<lparr>Container_Image := ''ubuntu'',
                        Script := [CHR 0xC2, CHR 0xA0] @ ''#!/bin/sh''\<rparr>] = None"
  by code_simp

subsection \<open>The claims about the validator\<close>

text \<open>
  Claim C4. The variable usage analysis is the last check of \<open>TaskSpec.Validate\<close>: when
  an earlier check fails the validator returns that check's error, and when all earlier
  checks pass the template has been merged, the slice \<open>ts.Steps\<close> holds the merged step
  list, and the validator returns the result of the analysis of that merged list together
  with the declared parameters.
\<close>

theorem variables_checked_last_on_merged_steps:
  "(checksBeforeVariables Resources_Validate ts = Some err \<longrightarrow>
      TaskSpec_Validate Resources_Validate ts = Some err)
   \<and> (checksBeforeVariables Resources_Validate ts = None \<longrightarrow>
      (\<exists>mergedSteps.
         MergeStepsWithStepTemplate (StepTemplate ts) (Steps ts) = (Inr mergedSteps, mergedSteps)
         \<and> mergedSteps = (case StepTemplate ts of
                              None \<Rightarrow> Steps ts
                            | Some t \<Rightarrow> map (mergeStep t) (Steps ts))
         \<and> TaskSpec_Validate Resources_Validate ts
             = validateParameterVariables mergedSteps (Params ts)))"
proof (intro conjI impI)
  assume "checksBeforeVariables Resources_Validate ts = Some err"
  then show "TaskSpec_Validate Resources_Validate ts = Some err"
    by (auto simp: TaskSpec_Validate_def checksBeforeVariables_def orElse_def Let_def
        split: if_splits option.splits sum.splits prod.splits)
next
  assume n: "checksBeforeVariables Resources_Validate ts = None"
  obtain mergedSteps
    where m: "MergeStepsWithStepTemplate (StepTemplate ts) (Steps ts) = (Inr mergedSteps, mergedSteps)"
      and t: "mergedSteps = (case StepTemplate ts of
                               None \<Rightarrow> Steps ts
                             | Some t \<Rightarrow> map (mergeStep t) (Steps ts))"
    by (cases "StepTemplate ts") (simp_all add: MergeStepsWithStepTemplate_def Let_def)
  from n have "TaskSpec_Validate Resources_Validate ts
      = validateParameterVariables mergedSteps (Params ts)"
    by (auto simp: TaskSpec_Validate_def checksBeforeVariables_def orElse_def Let_def m
        split: if_splits option.splits)
  with m t show "\<exists>mergedSteps.
         MergeStepsWithStepTemplate (StepTemplate ts) (Steps ts) = (Inr mergedSteps, mergedSteps)
         \<and> mergedSteps = (case StepTemplate ts of
                              None \<Rightarrow> Steps ts
                            | Some t \<Rightarrow> map (mergeStep t) (Steps ts))
         \<and> TaskSpec_Validate Resources_Validate ts
             = validateParameterVariables mergedSteps (Params ts)"
    by blast
qed

text \<open>
  A specification whose template argument refers to an undeclared parameter passes the
  earlier checks and is rejected by the analysis of the merged steps, at \<open>arg[0]\<close>; a
  specification without steps is rejected by the second check.
\<close>

theorem variables_checked_last_on_merged_steps_witness:
  "checksBeforeVariables no_resources template_spec = None
   \<and> MergeStepsWithStepTemplate (StepTemplate template_spec) (Steps template_spec)
       = (Inr merged_template_steps, merged_template_steps)
   \<and> TaskSpec_Validate no_resources template_spec =
       Some \<lparr>Message = UndeclaredVariable ''$(params.nope)'' ''step'' ''arg[0]'',
             Paths = [''taskspec.steps.arg[0]''], Details = ''''\<rparr>
   \<and> checksBeforeVariables no_resources no_steps_spec = Some (ErrMissingField [''steps''])
   \<and> TaskSpec_Validate no_resources no_steps_spec = Some (ErrMissingField [''steps''])"
proof -
  have a: "checksBeforeVariables no_resources template_spec = None"
    by code_simp
  have b: "checksBeforeVariables no_resources no_steps_spec = Some (ErrMissingField [''steps''])"
    by code_simp
  have m: "MergeStepsWithStepTemplate (StepTemplate template_spec) (Steps template_spec)
       = (Inr merged_template_steps, merged_template_steps)"
    by code_simp
  have v: "validateParameterVariables merged_template_steps (Params template_spec) =
       Some \<lparr>Message = UndeclaredVariable ''$(params.nope)'' ''step'' ''arg[0]'',
             Paths = [''taskspec.steps.arg[0]''], Details = ''''\<rparr>"
    by code_simp
  from variables_checked_last_on_merged_steps [of no_resources template_spec,
      THEN conjunct2, THEN mp, OF a] m v
  have c: "TaskSpec_Validate no_resources template_spec =
       Some \<lparr>Message = UndeclaredVariable ''$(params.nope)'' ''step'' ''arg[0]'',
             Paths = [''taskspec.steps.arg[0]''], Details = ''''\<rparr>"
    by auto
  from variables_checked_last_on_merged_steps [of no_resources no_steps_spec,
      THEN conjunct1, THEN mp, OF b]
  have d: "TaskSpec_Validate no_resources no_steps_spec = Some (ErrMissingField [''steps''])" .
  from a b m c d show ?thesis by simp
qed

text \<open>
  Claim C5, as amended. \<open>validateParameterVariables\<close> walks the fields in the fixed order
  (steps in declaration order; within a step name, image, workingDir, command tokens,
  argument tokens, environment values, volume mounts) twice. It returns the first
  reference to an undeclared parameter found in that order, if there is one in any field of
  any step; otherwise it returns the first misuse of an array-typed parameter found in that
  order. It accepts exactly the inputs in which no field has a violation of either kind.
\<close>

theorem analyzer_reports_first_of_each_pass:
  "validateParameterVariables steps params = firstViolation_twoPass steps params
   \<and> (validateParameterVariables steps params = None
        \<longleftrightarrow> firstViolation_onePass steps params = None)"
  by (simp add: validateParameterVariables_twoPass onePass_None_iff)

theorem analyzer_reports_first_of_each_pass_witness:
  "validateParameterVariables [two_violations_step] [list_param] =
     Some \<lparr>Message = UndeclaredVariable ''$(params.nope)'' ''step'' ''workingDir'',
           Paths = [''taskspec.steps.workingDir''], Details = ''''\<rparr>
   \<and> firstViolation_twoPass [two_violations_step] [list_param] =
     Some \<lparr>Message = UndeclaredVariable ''$(params.nope)'' ''step'' ''workingDir'',
           Paths = [''taskspec.steps.workingDir''], Details = ''''\<rparr>
   \<and> firstViolation_onePass [two_violations_step] [list_param] \<noteq> None"
proof -
  have "validateParameterVariables [two_violations_step] [list_param] =
     Some \<lparr>Message = UndeclaredVariable ''$(params.nope)'' ''step'' ''workingDir'',
           Paths = [''taskspec.steps.workingDir''], Details = ''''\<rparr>"
    by code_simp
  with analyzer_reports_first_of_each_pass [of "[two_violations_step]" "[list_param]"]
  show ?thesis by simp
qed

text \<open>
  The claim as stated, that the violation at the earliest position in the order is the one
  reported, fails for a step whose image refers to the array parameter \<open>list\<close> and whose
  workingDir refers to an undeclared parameter: image comes first in the order and its
  violation is what a single walk reports, but the analyzer, and with it the validator,
  reports the undeclared reference in workingDir.
\<close>

theorem earliest_violation_counterexample:
  "validateArrayUsage_step two_violations_step ''params'' (arrayParameterNames [list_param]) =
     Some \<lparr>Message = ArrayInScalarContext ''$(params.list)'' ''step'' ''image'',
           Paths = [''taskspec.steps.image''], Details = ''''\<rparr>
   \<and> firstViolation_onePass [two_violations_step] [list_param] =
     Some \<lparr>Message = ArrayInScalarContext ''$(params.list)'' ''step'' ''image'',
           Paths = [''taskspec.steps.image''], Details = ''''\<rparr>
   \<and> validateParameterVariables [two_violations_step] [list_param] =
     Some \<lparr>Message = UndeclaredVariable ''$(params.nope)'' ''step'' ''workingDir'',
           Paths = [''taskspec.steps.workingDir''], Details = ''''\<rparr>
   \<and> TaskSpec_Validate no_resources two_violations_spec =
     Some \<lparr>Message = UndeclaredVariable ''$(params.nope)'' ''step'' ''workingDir'',
           Paths = [''taskspec.steps.workingDir''], Details = ''''\<rparr>"
  by code_simp




end
